theory Spec2Isabelle
  imports Complex_Main "HOL-Library.Sublist"
begin

section \<open>Data model\<close>

text \<open>
  The backend is an Express application over Mongoose models.  Every model becomes a
  record, every string enumeration a datatype, and the database a record of collections
  (lists of documents, in insertion order).  Numbers are mathematical integers (the
  fields hold whole minutes, points and millisecond timestamps); the running average of
  a game is an exact rational.  An \<open>ObjectId\<close> is a natural number.
\<close>

type_synonym objectId = nat

text \<open>A JavaScript \<open>Date\<close>: milliseconds since the epoch.\<close>

type_synonym date = int

datatype severity = Low | Medium | High

datatype category = Cyberbullying | ExplicitContent | PersonalInfo | Violence | Other

datatype alertType =
  AlertCyberbullying | AlertExplicitContent | AlertScreenTime
  | AlertTimeExtensionRequest | AlertOther

datatype ageGroup = Age3to5 | Age6to8 | Age9to12

subsection \<open>The JavaScript runtime\<close>

text \<open>
  A JavaScript string is its sequence of UTF-16 code units.  A string that carries no
  text operation (a badge name, a response message) is kept as a \<open>string\<close> of the
  logic.
\<close>

type_synonym jsString = "nat list"

text \<open>
  The built-ins of the runtime that the code calls and whose tables are not part of
  the repository are parameters of the model: \<open>String.prototype.toLowerCase\<close> and
  \<open>String.prototype.trim\<close> (the Unicode case mappings and white-space set), and the
  offset of the server's local time from UTC, in milliseconds, at a given instant
  (the time zone of the process).
\<close>

record platform =
  toLowerCase :: "jsString \<Rightarrow> jsString"
  trim :: "jsString \<Rightarrow> jsString"
  timezoneOffset :: "date \<Rightarrow> int"

subsection \<open>models/SafetyThreatDictionary.js\<close>

record safetyThreat =
  threat_id :: objectId
  keyword :: jsString
  severity :: severity
  category :: category
  isActive :: bool

text \<open>The object literal pushed by \<open>checkContent\<close>.\<close>

record foundThreat =
  foundKeyword :: jsString
  foundSeverity :: severity
  foundCategory :: category

text \<open>
  \<open>String.prototype.includes\<close>: the argument occurs at some position of the
  receiver.
\<close>

fun str_includes :: "'a list \<Rightarrow> 'a list \<Rightarrow> bool" where
  "str_includes [] k = (k = [])"
| "str_includes (c # cs) k = (prefix k (c # cs) \<or> str_includes cs k)"

definition toFound :: "safetyThreat \<Rightarrow> foundThreat" where
  "toFound threat =
     \<lparr>foundKeyword = keyword threat, foundSeverity = severity threat,
      foundCategory = category threat\<rparr>"

text \<open>
  \<open>checkContent\<close>: \<open>find({isActive: true})\<close>, then the \<open>for\<close> loop that pushes
  every threat whose keyword the lower-cased content includes.
\<close>

definition checkContent :: "platform \<Rightarrow> safetyThreat list \<Rightarrow> jsString \<Rightarrow> foundThreat list" where
  "checkContent pf dictionary content =
     (let threats = filter isActive dictionary;
          contentLower = toLowerCase pf content
      in foldl (\<lambda>foundThreats threat.
                  if str_includes contentLower (keyword threat)
                  then foundThreats @ [toFound threat] else foundThreats)
           [] threats)"

fun severityOrder :: "severity \<Rightarrow> nat" where
  "severityOrder High = 3"
| "severityOrder Medium = 2"
| "severityOrder Low = 1"

text \<open>\<open>getHighestSeverity\<close>: \<open>null\<close> on the empty list is \<open>None\<close>.\<close>

definition getHighestSeverity :: "foundThreat list \<Rightarrow> severity option" where
  "getHighestSeverity threats =
     (case threats of
        [] \<Rightarrow> None
      | first # _ \<Rightarrow>
          Some (foundSeverity
            (foldl (\<lambda>highest threat.
                      if severityOrder (foundSeverity threat) > severityOrder (foundSeverity highest)
                      then threat else highest)
               first threats)))"

subsection \<open>models/ChildProfile.js\<close>

text \<open>
  Mongoose adds \<open>_id\<close> to every document (here \<open>cp_id\<close>, \<open>gs_id\<close> and so on).
  The bookkeeping fields \<open>createdAt\<close>/\<open>updatedAt\<close> of \<open>timestamps: true\<close> are read
  by no function below and are left out.
\<close>

record childProfile =
  cp_id :: objectId
  childId :: objectId
  ageGroup :: ageGroup
  knowledgePoints :: int
  achievements :: "string list"
  timeLimitMinutes :: int
  timeUsedToday :: int
  lastTimeReset :: date
  guardianId :: "objectId option"
  allowedGames :: "objectId list"
  totalGamesPlayed :: int
  totalTimeSpent :: int

subsection \<open>models/GuardianProfile.js\<close>

record guardianProfile =
  gp_id :: objectId
  gpGuardianId :: objectId
  linkedChildren :: "objectId list"
  defaultTimeLimit :: int

subsection \<open>models/GameSession.js\<close>

record gameSession =
  gs_id :: objectId
  sessionChildId :: objectId
  gameId :: objectId
  scoreRaw :: int
  kpEarned :: int
  startTime :: date
  endTime :: "date option"
  questionsAnswered :: int
  correctAnswers :: int
  hintsUsed :: int
  badgeEarned :: "string option"
  isCompleted :: bool

subsection \<open>models/SeriousGame.js\<close>

text \<open>
  Of the game document only the fields read or written by the session routes are kept
  (the name, description, icon, colour and questions are presentation data).
\<close>

record seriousGame =
  game_id :: objectId
  gameIsActive :: bool
  appropriateAgeGroups :: "ageGroup list"
  maxPoints :: int
  totalPlays :: int
  averageScore :: rat

subsection \<open>models/KnowledgePointsTransaction.js\<close>

text \<open>The reason string \<open>`SeriousGame: ${gameId}`\<close> is kept as a constructor.\<close>

datatype reason = SeriousGameReason objectId

record knowledgePointsTransaction =
  txChildId :: objectId
  points :: int
  reason :: reason
  txTimestamp :: date

subsection \<open>models/TimeUsageLog.js\<close>

datatype sessionType = GameSessionType | BrowseSessionType | ChatSessionType | OtherSessionType

record timeUsageLog =
  logChildId :: objectId
  durationMinutes :: int
  sessionType :: sessionType
  logGameId :: "objectId option"
  logTimestamp :: date

subsection \<open>models/SafetyAlert.js\<close>

text \<open>The two generated alert messages, with the number they interpolate.\<close>

datatype alertMessage = FlaggedMessageDetected nat | TimeExtensionRequested int

record safetyAlert =
  alert_id :: objectId
  alertChildId :: objectId
  alertSeverity :: severity
  alertType :: alertType
  message :: alertMessage
  triggerKeyword :: "jsString option"
  createdAt :: date
  resolved :: bool
  resolvedAt :: "date option"
  resolvedBy :: "objectId option"
  expiresAt :: date

subsection \<open>models/Notification.js\<close>

record notification =
  notif_id :: objectId
  notifGuardianId :: objectId
  alertId :: objectId
  isRead :: bool
  sentAt :: date
  readAt :: "date option"

subsection \<open>models/ChatMessage.js\<close>

record chatMessage =
  msg_id :: objectId
  senderId :: objectId
  receiverId :: "objectId option"
  content :: jsString
  isFlagged :: bool
  flagReason :: "string option"
  msgTimestamp :: date

subsection \<open>models/SystemAuditLog.js\<close>

text \<open>Of an audit entry the actor, the action and the entity are kept.\<close>

record auditEntry =
  performedBy :: objectId
  action :: string
  entityId :: "objectId option"

subsection \<open>The database\<close>

text \<open>
  \<open>nextId\<close> is the source of fresh \<open>ObjectId\<close>s.  \<open>writesLeft\<close> models the storage
  layer failing: \<open>None\<close> is a store that never fails, \<open>Some n\<close> a store that performs
  \<open>n\<close> more writes and rejects every write after them.
\<close>

record db =
  childProfiles :: "childProfile list"
  guardianProfiles :: "guardianProfile list"
  gameSessions :: "gameSession list"
  seriousGames :: "seriousGame list"
  transactions :: "knowledgePointsTransaction list"
  timeUsageLogs :: "timeUsageLog list"
  safetyAlerts :: "safetyAlert list"
  notifications :: "notification list"
  threatDictionary :: "safetyThreat list"
  chatMessages :: "chatMessage list"
  auditLogs :: "auditEntry list"
  nextId :: objectId
  writesLeft :: "nat option"

section \<open>Exceptions and storage\<close>

text \<open>
  What an \<open>await\<close> can throw: a storage failure, a Mongoose validation error raised by
  \<open>save\<close>/\<open>create\<close>, the duplicate-key error of a unique index (code 11000), or
  the \<open>TypeError\<close> of reading a property of \<open>null\<close>.
  A computation takes the database and returns its result or the exception, together
  with the database as it stands at that point: what was written before an exception
  stays written.
\<close>

datatype exn = StorageFailure | ValidationError | DuplicateKeyError | TypeError

type_synonym 'a io = "db \<Rightarrow> (exn + 'a) \<times> db"

definition ret :: "'a \<Rightarrow> 'a io" where
  "ret a s = (Inr a, s)"

definition throw :: "exn \<Rightarrow> 'a io" where
  "throw e s = (Inl e, s)"

definition gets :: "(db \<Rightarrow> 'a) \<Rightarrow> 'a io" where
  "gets f s = (Inr (f s), s)"

definition andThen :: "'a io \<Rightarrow> ('a \<Rightarrow> 'b io) \<Rightarrow> 'b io" where
  "andThen m f s = (case m s of (Inl e, s') \<Rightarrow> (Inl e, s') | (Inr a, s') \<Rightarrow> f a s')"

text \<open>One write to the store.\<close>

definition storageWrite :: "unit io" where
  "storageWrite s =
     (case writesLeft s of
        None \<Rightarrow> (Inr (), s)
      | Some 0 \<Rightarrow> (Inl StorageFailure, s)
      | Some (Suc n) \<Rightarrow> (Inr (), s\<lparr>writesLeft := Some n\<rparr>))"

definition freshId :: "objectId io" where
  "freshId s = (Inr (nextId s), s\<lparr>nextId := Suc (nextId s)\<rparr>)"


subsection \<open>Queries\<close>

text \<open>
  \<open>findOne\<close> and \<open>findById\<close> return the first matching document of the collection,
  or \<open>null\<close> (\<open>None\<close>).
\<close>

definition findOneChildProfile :: "objectId \<Rightarrow> db \<Rightarrow> childProfile option" where
  "findOneChildProfile cid s = find (\<lambda>p. childId p = cid) (childProfiles s)"

definition findChildProfileById :: "objectId \<Rightarrow> db \<Rightarrow> childProfile option" where
  "findChildProfileById pid s = find (\<lambda>p. cp_id p = pid) (childProfiles s)"

definition findOneGuardianProfile :: "objectId \<Rightarrow> db \<Rightarrow> guardianProfile option" where
  "findOneGuardianProfile gid s = find (\<lambda>g. gpGuardianId g = gid) (guardianProfiles s)"

definition findGuardianProfileLinking :: "objectId \<Rightarrow> db \<Rightarrow> guardianProfile option" where
  "findGuardianProfileLinking pid s = find (\<lambda>g. pid \<in> set (linkedChildren g)) (guardianProfiles s)"

definition findGameSessionById :: "objectId \<Rightarrow> db \<Rightarrow> gameSession option" where
  "findGameSessionById sid s = find (\<lambda>x. gs_id x = sid) (gameSessions s)"

definition findSeriousGameById :: "objectId \<Rightarrow> db \<Rightarrow> seriousGame option" where
  "findSeriousGameById gid s = find (\<lambda>g. game_id g = gid) (seriousGames s)"

definition findSafetyAlertById :: "objectId \<Rightarrow> db \<Rightarrow> safetyAlert option" where
  "findSafetyAlertById aid s = find (\<lambda>a. alert_id a = aid) (safetyAlerts s)"

subsection \<open>Schema validation and \<open>save\<close>\<close>

text \<open>
  \<open>save\<close> on a loaded document validates the document against the \<open>min\<close>/\<open>max\<close>
  validators of its schema (Mongoose validates every path of the document unless
  \<open>validateModifiedOnly\<close> is set, and the repository never sets it), throws a validation
  error when one fails, and otherwise writes the document back under its \<open>_id\<close>
  (\<open>putChildProfile\<close> and its siblings).  \<open>required\<close> and \<open>enum\<close> hold by the
  types of the fields.
\<close>

definition validChildProfile :: "childProfile \<Rightarrow> bool" where
  "validChildProfile p \<longleftrightarrow>
     0 \<le> knowledgePoints p \<and> 15 \<le> timeLimitMinutes p \<and> timeLimitMinutes p \<le> 240
     \<and> 0 \<le> timeUsedToday p"

definition validGameSession :: "gameSession \<Rightarrow> bool" where
  "validGameSession x \<longleftrightarrow> 0 \<le> scoreRaw x \<and> 0 \<le> kpEarned x"

definition validSeriousGame :: "seriousGame \<Rightarrow> bool" where
  "validSeriousGame g \<longleftrightarrow> 10 \<le> maxPoints g"

definition validTimeUsageLog :: "timeUsageLog \<Rightarrow> bool" where
  "validTimeUsageLog l \<longleftrightarrow> 0 \<le> durationMinutes l"

definition putChildProfile :: "childProfile \<Rightarrow> childProfile list \<Rightarrow> childProfile list" where
  "putChildProfile p ps = map (\<lambda>q. if cp_id q = cp_id p then p else q) ps"

definition putGameSession :: "gameSession \<Rightarrow> gameSession list \<Rightarrow> gameSession list" where
  "putGameSession x xs = map (\<lambda>y. if gs_id y = gs_id x then x else y) xs"

definition putSeriousGame :: "seriousGame \<Rightarrow> seriousGame list \<Rightarrow> seriousGame list" where
  "putSeriousGame g gs = map (\<lambda>h. if game_id h = game_id g then g else h) gs"

definition putSafetyAlert :: "safetyAlert \<Rightarrow> safetyAlert list \<Rightarrow> safetyAlert list" where
  "putSafetyAlert a as = map (\<lambda>b. if alert_id b = alert_id a then a else b) as"

definition saveChildProfile :: "childProfile \<Rightarrow> childProfile io" where
  "saveChildProfile p =
     (if \<not> validChildProfile p then throw ValidationError
      else andThen storageWrite (\<lambda>_ s.
        (Inr p, s\<lparr>childProfiles := putChildProfile p (childProfiles s)\<rparr>)))"

definition saveGameSession :: "gameSession \<Rightarrow> gameSession io" where
  "saveGameSession x =
     (if \<not> validGameSession x then throw ValidationError
      else andThen storageWrite (\<lambda>_ s.
        (Inr x, s\<lparr>gameSessions := putGameSession x (gameSessions s)\<rparr>)))"

definition saveSeriousGame :: "seriousGame \<Rightarrow> seriousGame io" where
  "saveSeriousGame g =
     (if \<not> validSeriousGame g then throw ValidationError
      else andThen storageWrite (\<lambda>_ s.
        (Inr g, s\<lparr>seriousGames := putSeriousGame g (seriousGames s)\<rparr>)))"

definition saveSafetyAlert :: "safetyAlert \<Rightarrow> safetyAlert io" where
  "saveSafetyAlert a =
     andThen storageWrite (\<lambda>_ s.
       (Inr a, s\<lparr>safetyAlerts := putSafetyAlert a (safetyAlerts s)\<rparr>))"

text \<open>
  \<open>findByIdAndUpdate(id, update, {new: true})\<close>: the update is applied in the store
  with no schema validation (update validators are off unless requested); the result
  is the updated document, or \<open>null\<close> when no document has that id.
\<close>

definition findChildProfileByIdAndUpdate ::
  "objectId \<Rightarrow> (childProfile \<Rightarrow> childProfile) \<Rightarrow> childProfile option io" where
  "findChildProfileByIdAndUpdate pid upd =
     andThen storageWrite (\<lambda>_ s.
       (case findChildProfileById pid s of
          None \<Rightarrow> (Inr None, s)
        | Some p \<Rightarrow>
            (Inr (Some (upd p)),
             s\<lparr>childProfiles := putChildProfile (upd p) (childProfiles s)\<rparr>)))"

subsection \<open>\<open>create\<close>\<close>

definition createTransaction :: "knowledgePointsTransaction \<Rightarrow> unit io" where
  "createTransaction t =
     andThen storageWrite (\<lambda>_ s. (Inr (), s\<lparr>transactions := transactions s @ [t]\<rparr>))"

definition createTimeUsageLog :: "timeUsageLog \<Rightarrow> unit io" where
  "createTimeUsageLog l =
     (if \<not> validTimeUsageLog l then throw ValidationError
      else andThen storageWrite (\<lambda>_ s. (Inr (), s\<lparr>timeUsageLogs := timeUsageLogs s @ [l]\<rparr>)))"

text \<open>\<open>GameSession.create({childId, gameId, startTime})\<close> with the schema defaults.\<close>

definition createGameSession :: "objectId \<Rightarrow> objectId \<Rightarrow> date \<Rightarrow> gameSession io" where
  "createGameSession cid gid now =
     andThen freshId (\<lambda>i.
     andThen storageWrite (\<lambda>_ s.
       (let x = \<lparr>gs_id = i, sessionChildId = cid, gameId = gid, scoreRaw = 0, kpEarned = 0,
                 startTime = now, endTime = None, questionsAnswered = 0, correctAnswers = 0,
                 hintsUsed = 0, badgeEarned = None, isCompleted = False\<rparr>
        in (Inr x, s\<lparr>gameSessions := gameSessions s @ [x]\<rparr>))))"

text \<open>
  \<open>SafetyAlert.create\<close> with the schema defaults: unresolved, created now, expiring
  90 days later.
\<close>

definition createSafetyAlert ::
  "date \<Rightarrow> objectId \<Rightarrow> severity \<Rightarrow> alertType \<Rightarrow> alertMessage \<Rightarrow> jsString option
     \<Rightarrow> safetyAlert io" where
  "createSafetyAlert now cid sev ty msg kw =
     andThen freshId (\<lambda>i.
     andThen storageWrite (\<lambda>_ s.
       (let a = \<lparr>alert_id = i, alertChildId = cid, alertSeverity = sev, alertType = ty,
                 message = msg, triggerKeyword = kw, createdAt = now, resolved = False,
                 resolvedAt = None, resolvedBy = None,
                 expiresAt = now + 90 * 24 * 60 * 60 * 1000\<rparr>
        in (Inr a, s\<lparr>safetyAlerts := safetyAlerts s @ [a]\<rparr>))))"

definition createNotification :: "date \<Rightarrow> objectId \<Rightarrow> objectId \<Rightarrow> notification io" where
  "createNotification now gid aid =
     andThen freshId (\<lambda>i.
     andThen storageWrite (\<lambda>_ s.
       (let n = \<lparr>notif_id = i, notifGuardianId = gid, alertId = aid, isRead = False,
                 sentAt = now, readAt = None\<rparr>
        in (Inr n, s\<lparr>notifications := notifications s @ [n]\<rparr>))))"


section \<open>Model methods\<close>

text \<open>
  A method that assigns to fields of \<open>this\<close> and saves returns the document as it is
  after the assignments, so that the caller goes on with the same in-memory document,
  as the JavaScript does.  \<open>new Date()\<close> is the argument \<open>now\<close>.
\<close>

subsection \<open>ChildProfile\<close>

text \<open>
  \<open>Date.prototype.toDateString\<close> names the calendar day of a timestamp in the local
  time of the server; two timestamps have the same string exactly when they fall on
  the same local day.  The day is numbered from the epoch.
\<close>

definition toDateString :: "platform \<Rightarrow> date \<Rightarrow> int" where
  "toDateString pf t = (t + timezoneOffset pf t) div 86400000"

definition addPoints :: "date \<Rightarrow> childProfile \<Rightarrow> int \<Rightarrow> reason \<Rightarrow> childProfile io" where
  "addPoints now this pts rsn =
     andThen (saveChildProfile (this\<lparr>knowledgePoints := knowledgePoints this + pts\<rparr>)) (\<lambda>this'.
     andThen (createTransaction
                \<lparr>txChildId = childId this', points = pts, reason = rsn, txTimestamp = now\<rparr>) (\<lambda>_.
     ret this'))"

definition addAchievement :: "childProfile \<Rightarrow> string \<Rightarrow> childProfile io" where
  "addAchievement this achievement =
     (if achievement \<notin> set (achievements this)
      then saveChildProfile (this\<lparr>achievements := achievements this @ [achievement]\<rparr>)
      else ret this)"

definition resetDailyTime :: "platform \<Rightarrow> date \<Rightarrow> childProfile \<Rightarrow> childProfile io" where
  "resetDailyTime pf now this =
     (if toDateString pf now \<noteq> toDateString pf (lastTimeReset this)
      then saveChildProfile (this\<lparr>timeUsedToday := 0, lastTimeReset := now\<rparr>)
      else ret this)"

definition addTimeUsed :: "childProfile \<Rightarrow> int \<Rightarrow> (int \<times> int) io" where
  "addTimeUsed this minutes =
     andThen (saveChildProfile
                (this\<lparr>timeUsedToday := timeUsedToday this + minutes,
                      totalTimeSpent := totalTimeSpent this + minutes\<rparr>)) (\<lambda>this'.
     ret (timeUsedToday this', max 0 (timeLimitMinutes this' - timeUsedToday this')))"

text \<open>The object returned by \<open>checkTimeLimit\<close>.\<close>

datatype timeStatus =
  ProfileNotFound
  | TimeStatus bool int int int

fun allowed :: "timeStatus \<Rightarrow> bool" where
  "allowed ProfileNotFound = False"
| "allowed (TimeStatus a remaining limit used) = a"

fun statusTimeRemaining :: "timeStatus \<Rightarrow> int option" where
  "statusTimeRemaining ProfileNotFound = None"
| "statusTimeRemaining (TimeStatus a remaining limit used) = Some remaining"

fun statusTimeLimitMinutes :: "timeStatus \<Rightarrow> int option" where
  "statusTimeLimitMinutes ProfileNotFound = None"
| "statusTimeLimitMinutes (TimeStatus a remaining limit used) = Some limit"

fun statusTimeUsedToday :: "timeStatus \<Rightarrow> int option" where
  "statusTimeUsedToday ProfileNotFound = None"
| "statusTimeUsedToday (TimeStatus a remaining limit used) = Some used"

definition checkTimeLimit :: "platform \<Rightarrow> date \<Rightarrow> objectId \<Rightarrow> timeStatus io" where
  "checkTimeLimit pf now cid =
     andThen (gets (findOneChildProfile cid)) (\<lambda>found.
     case found of
       None \<Rightarrow> ret ProfileNotFound
     | Some profile \<Rightarrow>
         andThen (resetDailyTime pf now profile) (\<lambda>profile'.
         let timeRemaining = timeLimitMinutes profile' - timeUsedToday profile'
         in ret (TimeStatus (timeRemaining > 0) timeRemaining
                   (timeLimitMinutes profile') (timeUsedToday profile'))))"

subsection \<open>SeriousGame\<close>

definition recordPlay :: "seriousGame \<Rightarrow> int \<Rightarrow> seriousGame io" where
  "recordPlay this score =
     (let newTotalPlays = totalPlays this + 1;
          newAverageScore =
            (averageScore this * of_int (totalPlays this) + of_int score) / of_int newTotalPlays
      in saveSeriousGame (this\<lparr>totalPlays := newTotalPlays, averageScore := newAverageScore\<rparr>))"

subsection \<open>GameSession\<close>

text \<open>
  \<open>Math.round(ms / 60000)\<close> and \<open>Math.ceil(ms / 60000)\<close> on a whole number of
  milliseconds: \<open>Math.round\<close> rounds to the nearest integer, a half upwards.
\<close>

definition roundMinutes :: "int \<Rightarrow> int" where
  "roundMinutes ms = (ms + 30000) div 60000"

definition ceilMinutes :: "int \<Rightarrow> int" where
  "ceilMinutes ms = - ((- ms) div 60000)"

text \<open>The virtual \<open>durationMinutes\<close>.\<close>

definition sessionDurationMinutes :: "gameSession \<Rightarrow> int" where
  "sessionDurationMinutes this =
     (case endTime this of
        Some e \<Rightarrow> roundMinutes (e - startTime this)
      | None \<Rightarrow> 0)"

definition complete ::
  "date \<Rightarrow> gameSession \<Rightarrow> int \<Rightarrow> int \<Rightarrow> int \<Rightarrow> int \<Rightarrow> string option \<Rightarrow> gameSession io" where
  "complete now this score correct answered hints badge =
     andThen (saveGameSession
                (this\<lparr>endTime := Some now, scoreRaw := score, kpEarned := score,
                      correctAnswers := correct, questionsAnswered := answered,
                      hintsUsed := hints, badgeEarned := badge, isCompleted := True\<rparr>)) (\<lambda>this'.
     andThen (gets (findOneChildProfile (sessionChildId this'))) (\<lambda>found.
     andThen (case found of
                None \<Rightarrow> ret ()
              | Some profile \<Rightarrow>
                  andThen (addPoints now profile (kpEarned this')
                             (SeriousGameReason (gameId this'))) (\<lambda>profile1.
                  andThen (case badge of
                             None \<Rightarrow> ret profile1
                           | Some b \<Rightarrow> if b \<noteq> [] then addAchievement profile1 b
                                       else ret profile1) (\<lambda>profile2.
                  andThen (saveChildProfile
                             (profile2\<lparr>totalGamesPlayed := totalGamesPlayed profile2 + 1\<rparr>)) (\<lambda>_.
                  ret ())))) (\<lambda>_.
     andThen (gets (findSeriousGameById (gameId this'))) (\<lambda>game.
     andThen (case game of
                None \<Rightarrow> ret ()
              | Some g \<Rightarrow> andThen (recordPlay g score) (\<lambda>_. ret ())) (\<lambda>_.
     ret this')))))"

subsection \<open>SafetyAlert\<close>

definition createTimeExtensionRequest :: "date \<Rightarrow> objectId \<Rightarrow> int \<Rightarrow> safetyAlert io" where
  "createTimeExtensionRequest now cid requestedMinutes =
     createSafetyAlert now cid Low AlertTimeExtensionRequest
       (TimeExtensionRequested requestedMinutes) None"

definition resolve :: "date \<Rightarrow> safetyAlert \<Rightarrow> objectId \<Rightarrow> safetyAlert io" where
  "resolve now this resolvedByUserId =
     saveSafetyAlert
       (this\<lparr>resolved := True, resolvedAt := Some now, resolvedBy := Some resolvedByUserId\<rparr>)"

subsection \<open>Notification\<close>

definition createFromAlert :: "date \<Rightarrow> objectId \<Rightarrow> objectId \<Rightarrow> notification option io" where
  "createFromAlert now aid cid =
     andThen (gets (findOneChildProfile cid)) (\<lambda>found.
     case found of
       None \<Rightarrow> ret None
     | Some profile \<Rightarrow>
         (case guardianId profile of
            None \<Rightarrow> ret None
          | Some _ \<Rightarrow>
              andThen (gets (findGuardianProfileLinking (cp_id profile))) (\<lambda>linked.
              case linked of
                None \<Rightarrow> ret None
              | Some g \<Rightarrow>
                  andThen (createNotification now (gpGuardianId g) aid) (\<lambda>n. ret (Some n)))))"

subsection \<open>ChatMessage\<close>

fun categoryName :: "category \<Rightarrow> string" where
  "categoryName Cyberbullying = ''Cyberbullying''"
| "categoryName ExplicitContent = ''ExplicitContent''"
| "categoryName PersonalInfo = ''PersonalInfo''"
| "categoryName Violence = ''Violence''"
| "categoryName Other = ''Other''"

text \<open>\<open>Array.prototype.join(', ')\<close>.\<close>

fun joinComma :: "string list \<Rightarrow> string" where
  "joinComma [] = []"
| "joinComma [x] = x"
| "joinComma (x # y # ys) = x @ '', '' @ joinComma (y # ys)"

text \<open>
  The pre-save middleware of a chat message, for a new message: scan the content and,
  when a threat is found, flag the message and create the safety alert.
\<close>

definition chatMessagePreSave :: "platform \<Rightarrow> date \<Rightarrow> chatMessage \<Rightarrow> chatMessage io" where
  "chatMessagePreSave pf now this =
     andThen (gets (\<lambda>s. checkContent pf (threatDictionary s) (content this))) (\<lambda>threats.
     case threats of
       [] \<Rightarrow> ret this
     | first # _ \<Rightarrow>
         (case getHighestSeverity threats of
            None \<Rightarrow> throw ValidationError
          | Some highestSeverity \<Rightarrow>
              andThen (createSafetyAlert now (senderId this) highestSeverity
                         (if foundCategory first = Cyberbullying then AlertCyberbullying
                          else if foundCategory first = ExplicitContent then AlertExplicitContent
                          else AlertOther)
                         (FlaggedMessageDetected (length threats))
                         (Some (foundKeyword first))) (\<lambda>_.
              ret (this\<lparr>isFlagged := True,
                        flagReason := Some (joinComma (map (categoryName \<circ> foundCategory) threats))\<rparr>))))"

definition insertChatMessage :: "chatMessage \<Rightarrow> chatMessage io" where
  "insertChatMessage msg =
     andThen storageWrite (\<lambda>_ s. (Inr msg, s\<lparr>chatMessages := chatMessages s @ [msg]\<rparr>))"

text \<open>\<open>ChatMessage.create\<close>: the middleware, then the insertion.\<close>

definition createChatMessage ::
  "platform \<Rightarrow> date \<Rightarrow> objectId \<Rightarrow> objectId option \<Rightarrow> jsString \<Rightarrow> chatMessage io" where
  "createChatMessage pf now sender receiver msgContent =
     andThen freshId (\<lambda>i.
     andThen (chatMessagePreSave pf now
                \<lparr>msg_id = i, senderId = sender, receiverId = receiver, content = msgContent,
                 isFlagged = False, flagReason = None, msgTimestamp = now\<rparr>) (\<lambda>msg.
     insertChatMessage msg))"


section \<open>Middleware and routes\<close>

text \<open>
  A response is its HTTP status and the JSON data the claims read.  The caller is
  already identified (token and role checks are outside the model): a route takes the
  \<open>_id\<close> of the authenticated user.
\<close>

datatype payload =
  Message string
  | TimeStatusData timeStatus
  | ScreenTimeLimitData "int option" "int option" int
  | StartData objectId "int option"
  | CompleteData gameSession int int "string list" int int
  | TimeLimitData int
  | AddTimeData int int
  | ExtensionData objectId int

datatype response = Response (status: nat) (payload: payload)

text \<open>The \<open>try { ... } catch (error) { res.status(500)... }\<close> around every handler.\<close>

definition catch500 :: "string \<Rightarrow> response io \<Rightarrow> db \<Rightarrow> response \<times> db" where
  "catch500 msg m s =
     (case m s of
        (Inl e, s') \<Rightarrow> (Response 500 (Message msg), s')
      | (Inr r, s') \<Rightarrow> (r, s'))"

subsection \<open>middleware/auth.js\<close>

text \<open>
  \<open>authenticate\<close> for a child: load the child profile and reset its daily time.
  For a guardian it loads the guardian profile and changes nothing.
\<close>

definition authenticateChild ::
  "platform \<Rightarrow> date \<Rightarrow> objectId \<Rightarrow> (db \<Rightarrow> response \<times> db) \<Rightarrow> db \<Rightarrow> response \<times> db" where
  "authenticateChild pf now userId next s =
     (case andThen (gets (findOneChildProfile userId)) (\<lambda>found.
             case found of
               None \<Rightarrow> ret ()
             | Some childProfile \<Rightarrow> andThen (resetDailyTime pf now childProfile) (\<lambda>_. ret ())) s of
        (Inl e, s') \<Rightarrow> (Response 500 (Message ''Authentication error.''), s')
      | (Inr _, s') \<Rightarrow> next s')"

definition checkScreenTime ::
  "platform \<Rightarrow> date \<Rightarrow> objectId \<Rightarrow> (timeStatus option \<Rightarrow> db \<Rightarrow> response \<times> db) \<Rightarrow> db \<Rightarrow> response \<times> db" where
  "checkScreenTime pf now userId next s =
     (case checkTimeLimit pf now userId s of
        (Inl e, s') \<Rightarrow> next None s'
      | (Inr timeStatus, s') \<Rightarrow>
          if \<not> allowed timeStatus
          then (Response 403
                  (ScreenTimeLimitData (statusTimeLimitMinutes timeStatus)
                     (statusTimeUsedToday timeStatus) 0), s')
          else next (Some timeStatus) s')"

definition canAccessChild ::
  "objectId \<Rightarrow> objectId \<Rightarrow> (db \<Rightarrow> response \<times> db) \<Rightarrow> db \<Rightarrow> response \<times> db" where
  "canAccessChild userId childProfileId next s =
     (case findOneGuardianProfile userId s of
        None \<Rightarrow> (Response 403 (Message ''Not authorized to access this child's data.''), s)
      | Some guardianProfile \<Rightarrow>
          if childProfileId \<notin> set (linkedChildren guardianProfile)
          then (Response 403 (Message ''Not authorized to access this child's data.''), s)
          else next s)"

subsection \<open>routes/child.js\<close>

text \<open>\<open>POST /api/child/games/:gameId/start\<close>\<close>

definition startHandler ::
  "date \<Rightarrow> objectId \<Rightarrow> objectId \<Rightarrow> timeStatus option \<Rightarrow> db \<Rightarrow> response \<times> db" where
  "startHandler now userId gid reqTimeStatus =
     catch500 ''Error starting game''
       (andThen (gets (findSeriousGameById gid)) (\<lambda>found.
        case found of
          None \<Rightarrow> ret (Response 404 (Message ''Game not found''))
        | Some game \<Rightarrow>
            if \<not> gameIsActive game then ret (Response 404 (Message ''Game not found''))
            else
              andThen (gets (findOneChildProfile userId)) (\<lambda>foundProfile.
              case foundProfile of
                None \<Rightarrow> throw TypeError
              | Some childProfile \<Rightarrow>
                  if ageGroup childProfile \<notin> set (appropriateAgeGroups game)
                  then ret (Response 403
                              (Message ''This game is not available for your age group''))
                  else
                    andThen (createGameSession userId (game_id game) now) (\<lambda>session.
                    ret (Response 201
                           (StartData (gs_id session)
                              (case reqTimeStatus of
                                 None \<Rightarrow> None
                               | Some ts \<Rightarrow> statusTimeRemaining ts)))))))"

definition startSession ::
  "platform \<Rightarrow> date \<Rightarrow> objectId \<Rightarrow> objectId \<Rightarrow> db \<Rightarrow> response \<times> db" where
  "startSession pf now userId gid =
     authenticateChild pf now userId
       (checkScreenTime pf now userId (startHandler now userId gid))"

text \<open>
  \<open>POST /api/child/games/session/:sessionId/complete\<close>.  The request body; a field
  the client may omit is optional.
\<close>

record completeBody =
  bodyScore :: int
  bodyCorrectAnswers :: int
  bodyQuestionsAnswered :: int
  bodyHintsUsed :: "int option"
  bodyBadgeEarned :: "string option"

text \<open>
  \<open>now\<close> is the clock when \<open>complete\<close> stamps \<open>endTime\<close>, \<open>later\<close> the clock
  when the handler computes the fallback duration.
\<close>

text \<open>
  \<open>session.durationMinutes || Math.ceil((new Date() - session.startTime) / 60000)\<close>:
  the virtual when it is not zero, the rounded-up elapsed time otherwise.
\<close>

definition durationToLog :: "date \<Rightarrow> gameSession \<Rightarrow> int" where
  "durationToLog later session =
     (if sessionDurationMinutes session \<noteq> 0 then sessionDurationMinutes session
      else ceilMinutes (later - startTime session))"

definition completeHandler ::
  "date \<Rightarrow> date \<Rightarrow> objectId \<Rightarrow> objectId \<Rightarrow> completeBody \<Rightarrow> db \<Rightarrow> response \<times> db" where
  "completeHandler now later userId sessionId body =
     catch500 ''Error completing game''
       (andThen (gets (findGameSessionById sessionId)) (\<lambda>found.
        case found of
          None \<Rightarrow> ret (Response 404 (Message ''Game session not found''))
        | Some session \<Rightarrow>
            if sessionChildId session \<noteq> userId
            then ret (Response 403 (Message ''Not authorized to complete this session''))
            else if isCompleted session
            then ret (Response 400 (Message ''Session already completed''))
            else
              andThen (complete now session (bodyScore body) (bodyCorrectAnswers body)
                         (bodyQuestionsAnswered body)
                         (case bodyHintsUsed body of None \<Rightarrow> 0 | Some h \<Rightarrow> h)
                         (bodyBadgeEarned body)) (\<lambda>session'.
              let duration = durationToLog later session' in
              andThen (gets (findOneChildProfile userId)) (\<lambda>foundProfile.
              case foundProfile of
                None \<Rightarrow> throw TypeError
              | Some childProfile \<Rightarrow>
                  andThen (addTimeUsed childProfile duration) (\<lambda>_.
                  andThen (createTimeUsageLog
                             \<lparr>logChildId = userId, durationMinutes = duration,
                              sessionType = GameSessionType,
                              logGameId = Some (gameId session'), logTimestamp = later\<rparr>) (\<lambda>_.
                  andThen (gets (findOneChildProfile userId)) (\<lambda>foundUpdated.
                  case foundUpdated of
                    None \<Rightarrow> throw TypeError
                  | Some updatedProfile \<Rightarrow>
                      ret (Response 200
                             (CompleteData session' duration
                                (knowledgePoints updatedProfile)
                                (achievements updatedProfile)
                                (timeUsedToday updatedProfile)
                                (max 0 (timeLimitMinutes updatedProfile
                                          - timeUsedToday updatedProfile)))))))))))"

definition completeSession ::
  "platform \<Rightarrow> date \<Rightarrow> date \<Rightarrow> objectId \<Rightarrow> objectId \<Rightarrow> completeBody \<Rightarrow> db \<Rightarrow> response \<times> db" where
  "completeSession pf now later userId sessionId body =
     authenticateChild pf now userId (completeHandler now later userId sessionId body)"

text \<open>\<open>GET /api/child/time-status\<close>\<close>

definition getTimeStatus ::
  "platform \<Rightarrow> date \<Rightarrow> objectId \<Rightarrow> db \<Rightarrow> response \<times> db" where
  "getTimeStatus pf now userId =
     authenticateChild pf now userId
       (catch500 ''Error getting time status''
          (andThen (checkTimeLimit pf now userId) (\<lambda>timeStatus.
           ret (Response 200 (TimeStatusData timeStatus)))))"

text \<open>\<open>POST /api/child/request-time-extension\<close>\<close>

definition requestTimeExtension ::
  "platform \<Rightarrow> date \<Rightarrow> objectId \<Rightarrow> int \<Rightarrow> db \<Rightarrow> response \<times> db" where
  "requestTimeExtension pf now userId requestedMinutes =
     authenticateChild pf now userId
       (catch500 ''Error requesting time extension''
          (if requestedMinutes = 0 \<or> requestedMinutes < 5 \<or> requestedMinutes > 60
           then ret (Response 400 (Message ''Requested minutes must be between 5 and 60''))
           else
             andThen (createTimeExtensionRequest now userId requestedMinutes) (\<lambda>alert.
             ret (Response 200 (ExtensionData (alert_id alert) requestedMinutes)))))"


subsection \<open>routes/guardian.js\<close>

text \<open>\<open>PUT /api/guardian/children/:childProfileId/time-limit\<close>\<close>

definition setTimeLimit :: "objectId \<Rightarrow> objectId \<Rightarrow> int \<Rightarrow> db \<Rightarrow> response \<times> db" where
  "setTimeLimit userId childProfileId minutes =
     canAccessChild userId childProfileId
       (catch500 ''Error updating time limit''
          (if minutes = 0 \<or> minutes < 15 \<or> minutes > 240
           then ret (Response 400 (Message ''Time limit must be between 15 and 240 minutes''))
           else
             andThen (findChildProfileByIdAndUpdate childProfileId
                        (\<lambda>p. p\<lparr>timeLimitMinutes := minutes\<rparr>)) (\<lambda>updated.
             case updated of
               None \<Rightarrow> throw TypeError
             | Some childProfile \<Rightarrow>
                 ret (Response 200 (TimeLimitData (timeLimitMinutes childProfile))))))"

text \<open>\<open>POST /api/guardian/children/:childProfileId/add-time\<close>\<close>

definition addTime ::
  "date \<Rightarrow> objectId \<Rightarrow> objectId \<Rightarrow> int \<Rightarrow> objectId option \<Rightarrow> db \<Rightarrow> response \<times> db" where
  "addTime now userId childProfileId additionalMinutes reqAlertId =
     canAccessChild userId childProfileId
       (catch500 ''Error adding extra time''
          (if additionalMinutes = 0 \<or> additionalMinutes < 5 \<or> additionalMinutes > 60
           then ret (Response 400 (Message ''Additional minutes must be between 5 and 60''))
           else
             andThen (gets (findChildProfileById childProfileId)) (\<lambda>found.
             case found of
               None \<Rightarrow> throw TypeError
             | Some childProfile \<Rightarrow>
                 andThen (saveChildProfile
                            (childProfile\<lparr>timeLimitMinutes :=
                               timeLimitMinutes childProfile + additionalMinutes\<rparr>)) (\<lambda>childProfile'.
                 andThen (case reqAlertId of
                            None \<Rightarrow> ret ()
                          | Some aid \<Rightarrow>
                              andThen (gets (findSafetyAlertById aid)) (\<lambda>foundAlert.
                              case foundAlert of
                                None \<Rightarrow> ret ()
                              | Some alert \<Rightarrow>
                                  andThen (resolve now alert userId) (\<lambda>_. ret ()))) (\<lambda>_.
                 ret (Response 200
                        (AddTimeData (timeLimitMinutes childProfile')
                           (timeLimitMinutes childProfile' - timeUsedToday childProfile'))))))))"

text \<open>\<open>PUT /api/guardian/alerts/:alertId/resolve\<close>\<close>

definition resolveAlert :: "date \<Rightarrow> objectId \<Rightarrow> objectId \<Rightarrow> db \<Rightarrow> response \<times> db" where
  "resolveAlert now userId aid =
     catch500 ''Error resolving alert''
       (andThen (gets (findSafetyAlertById aid)) (\<lambda>found.
        case found of
          None \<Rightarrow> ret (Response 404 (Message ''Alert not found''))
        | Some alert \<Rightarrow>
            andThen (gets (findOneGuardianProfile userId)) (\<lambda>foundGuardian.
            andThen (gets (findOneChildProfile (alertChildId alert))) (\<lambda>foundChild.
            case foundGuardian of
              None \<Rightarrow> throw TypeError
            | Some guardianProfile \<Rightarrow>
                (case foundChild of
                   None \<Rightarrow> throw TypeError
                 | Some childProfile \<Rightarrow>
                     if cp_id childProfile \<notin> set (linkedChildren guardianProfile)
                     then ret (Response 403 (Message ''Not authorized to resolve this alert''))
                     else
                       andThen (resolve now alert userId) (\<lambda>_.
                       ret (Response 200 (Message ''Alert resolved successfully''))))))))"

subsection \<open>routes/admin.js: the threat dictionary\<close>

text \<open>
  \<open>SafetyThreatDictionary.create\<close>.  The schema declares \<open>keyword\<close> with
  \<open>lowercase: true\<close> and \<open>trim: true\<close>: Mongoose runs the setters of a path last
  declared first, so the stored keyword is the lower-case form of the trimmed value.
  \<open>required\<close> rejects the empty string, and the unique index rejects a keyword that
  is already stored.
\<close>

definition createSafetyThreat ::
  "platform \<Rightarrow> jsString \<Rightarrow> severity \<Rightarrow> category \<Rightarrow> safetyThreat io" where
  "createSafetyThreat pf kw sev cat =
     (let storedKeyword = toLowerCase pf (trim pf kw)
      in if storedKeyword = [] then throw ValidationError
         else
           andThen (gets threatDictionary) (\<lambda>dictionary.
           if storedKeyword \<in> set (map keyword dictionary) then throw DuplicateKeyError
           else
             andThen freshId (\<lambda>i.
             andThen storageWrite (\<lambda>_ s.
               (let threat = \<lparr>threat_id = i, keyword = storedKeyword, severity = sev,
                              category = cat, isActive = True\<rparr>
                in (Inr threat, s\<lparr>threatDictionary := threatDictionary s @ [threat]\<rparr>))))))"

text \<open>\<open>SystemAuditLog.log\<close>\<close>

definition auditLog :: "objectId \<Rightarrow> string \<Rightarrow> objectId option \<Rightarrow> unit io" where
  "auditLog actor act entity =
     andThen storageWrite (\<lambda>_ s.
       (Inr (), s\<lparr>auditLogs := auditLogs s @
                  [\<lparr>performedBy = actor, action = act, entityId = entity\<rparr>]\<rparr>))"

text \<open>
  \<open>POST /api/admin/safety-threats\<close>.  A missing \<open>keyword\<close> or \<open>severity\<close> is
  \<open>None\<close>; the empty string is falsy as well.  The \<open>catch\<close> answers a
  duplicate-key error with 400 and any other exception with 500.
\<close>

definition addSafetyThreat ::
  "platform \<Rightarrow> objectId \<Rightarrow> jsString option \<Rightarrow> severity option \<Rightarrow> category option
     \<Rightarrow> db \<Rightarrow> response \<times> db" where
  "addSafetyThreat pf userId reqKeyword reqSeverity reqCategory s =
     (case (case reqKeyword of
              None \<Rightarrow> ret (Response 400 (Message ''Keyword and severity are required''))
            | Some kw \<Rightarrow>
                (case reqSeverity of
                   None \<Rightarrow> ret (Response 400 (Message ''Keyword and severity are required''))
                 | Some sev \<Rightarrow>
                     if kw = []
                     then ret (Response 400 (Message ''Keyword and severity are required''))
                     else
                       andThen (createSafetyThreat pf (trim pf (toLowerCase pf kw)) sev
                                  (case reqCategory of None \<Rightarrow> Other | Some c \<Rightarrow> c)) (\<lambda>threat.
                       andThen (auditLog userId ''SAFETY_THREAT_CREATE''
                                  (Some (threat_id threat))) (\<lambda>_.
                       ret (Response 201 (Message ''Safety threat added successfully'')))))) s of
        (Inl DuplicateKeyError, s') \<Rightarrow>
          (Response 400 (Message ''This keyword already exists''), s')
      | (Inl e, s') \<Rightarrow> (Response 500 (Message ''Error adding safety threat''), s')
      | (Inr r, s') \<Rightarrow> (r, s'))"

text \<open>
  \<open>DELETE /api/admin/safety-threats/:threatId\<close>:
  \<open>findByIdAndUpdate(threatId, {isActive: false}, {new: true})\<close>, the entry stays in
  the dictionary.
\<close>

definition findThreatByIdAndDeactivate :: "objectId \<Rightarrow> safetyThreat option io" where
  "findThreatByIdAndDeactivate threatId =
     andThen storageWrite (\<lambda>_ s.
       (case find (\<lambda>t. threat_id t = threatId) (threatDictionary s) of
          None \<Rightarrow> (Inr None, s)
        | Some threat \<Rightarrow>
            (Inr (Some (threat\<lparr>isActive := False\<rparr>)),
             s\<lparr>threatDictionary :=
                 map (\<lambda>t. if threat_id t = threat_id threat then threat\<lparr>isActive := False\<rparr> else t)
                   (threatDictionary s)\<rparr>)))"

definition deactivateSafetyThreat :: "objectId \<Rightarrow> objectId \<Rightarrow> db \<Rightarrow> response \<times> db" where
  "deactivateSafetyThreat userId threatId =
     catch500 ''Error deactivating safety threat''
       (andThen (findThreatByIdAndDeactivate threatId) (\<lambda>found.
        case found of
          None \<Rightarrow> ret (Response 404 (Message ''Safety threat not found''))
        | Some threat \<Rightarrow>
            andThen (auditLog userId ''SAFETY_THREAT_DEACTIVATE'' (Some threatId)) (\<lambda>_.
            ret (Response 200 (Message ''Safety threat deactivated successfully'')))))"

subsection \<open>Requests\<close>

text \<open>
  The operations of the core as requests, and a server that handles a list of them
  one after the other.  Sending a chat message is \<open>ChatMessage.create\<close>; no route of
  the repository calls it, so it has no response of its own.
\<close>

datatype request =
  StartSession date objectId objectId
  | CompleteSession date date objectId objectId completeBody
  | GetTimeStatus date objectId
  | RequestTimeExtension date objectId int
  | SetTimeLimit objectId objectId int
  | AddTime date objectId objectId int "objectId option"
  | ResolveAlert date objectId objectId
  | SendChatMessage date objectId "objectId option" jsString
  | AddSafetyThreat objectId "jsString option" "severity option" "category option"
  | DeactivateSafetyThreat objectId objectId

fun handle :: "platform \<Rightarrow> request \<Rightarrow> db \<Rightarrow> db" where
  "handle pf (StartSession now userId gid) s = snd (startSession pf now userId gid s)"
| "handle pf (CompleteSession now later userId sid b) s =
     snd (completeSession pf now later userId sid b s)"
| "handle pf (GetTimeStatus now userId) s = snd (getTimeStatus pf now userId s)"
| "handle pf (RequestTimeExtension now userId m) s = snd (requestTimeExtension pf now userId m s)"
| "handle pf (SetTimeLimit userId pid m) s = snd (setTimeLimit userId pid m s)"
| "handle pf (AddTime now userId pid m aid) s = snd (addTime now userId pid m aid s)"
| "handle pf (ResolveAlert now userId aid) s = snd (resolveAlert now userId aid s)"
| "handle pf (SendChatMessage now sender receiver msgContent) s =
     snd (createChatMessage pf now sender receiver msgContent s)"
| "handle pf (AddSafetyThreat userId kw sev cat) s = snd (addSafetyThreat pf userId kw sev cat s)"
| "handle pf (DeactivateSafetyThreat userId threatId) s =
     snd (deactivateSafetyThreat userId threatId s)"

fun serve :: "platform \<Rightarrow> request list \<Rightarrow> db \<Rightarrow> db" where
  "serve pf [] s = s"
| "serve pf (r # rs) s = serve pf rs (handle pf r s)"

section \<open>Notions used in the statements\<close>

text \<open>
  A keyword occurs in a text as a case-insensitive substring: some window of the text
  has the length of the keyword and agrees with it letter by letter, where
  \<open>sameLetter\<close> relates two code units that are the same letter up to case.  The
  notion does not mention lower-casing.
\<close>

fun matchesAt :: "('a \<Rightarrow> 'a \<Rightarrow> bool) \<Rightarrow> 'a list \<Rightarrow> 'a list \<Rightarrow> bool" where
  "matchesAt sameLetter [] cs = True"
| "matchesAt sameLetter (k # ks) [] = False"
| "matchesAt sameLetter (k # ks) (c # cs) = (sameLetter k c \<and> matchesAt sameLetter ks cs)"

fun occursIgnoringCase :: "('a \<Rightarrow> 'a \<Rightarrow> bool) \<Rightarrow> 'a list \<Rightarrow> 'a list \<Rightarrow> bool" where
  "occursIgnoringCase sameLetter kw [] = matchesAt sameLetter kw []"
| "occursIgnoringCase sameLetter kw (c # cs) =
     (matchesAt sameLetter kw (c # cs) \<or> occursIgnoringCase sameLetter kw cs)"

text \<open>A stored keyword is the lower-case form of some string.\<close>

definition lowerCaseForm :: "platform \<Rightarrow> jsString \<Rightarrow> bool" where
  "lowerCaseForm pf kw \<longleftrightarrow> (\<exists>v. kw = toLowerCase pf v)"

definition keywordsLowerCased :: "platform \<Rightarrow> db \<Rightarrow> bool" where
  "keywordsLowerCased pf s \<longleftrightarrow> (\<forall>t\<in>set (threatDictionary s). lowerCaseForm pf (keyword t))"

text \<open>The document \<open>resetDailyTime\<close> leaves in memory at the time \<open>now\<close>.\<close>

definition afterReset :: "platform \<Rightarrow> date \<Rightarrow> childProfile \<Rightarrow> childProfile" where
  "afterReset pf now p =
     (if toDateString pf now \<noteq> toDateString pf (lastTimeReset p)
      then p\<lparr>timeUsedToday := 0, lastTimeReset := now\<rparr> else p)"

text \<open>The session document \<open>complete\<close> saves for a request body.\<close>

definition completedSession :: "date \<Rightarrow> completeBody \<Rightarrow> gameSession \<Rightarrow> gameSession" where
  "completedSession now b x =
     x\<lparr>endTime := Some now, scoreRaw := bodyScore b, kpEarned := bodyScore b,
       correctAnswers := bodyCorrectAnswers b, questionsAnswered := bodyQuestionsAnswered b,
       hintsUsed := (case bodyHintsUsed b of None \<Rightarrow> 0 | Some h \<Rightarrow> h),
       badgeEarned := bodyBadgeEarned b, isCompleted := True\<rparr>"

text \<open>
  The child profile after the three profile steps of \<open>complete\<close> (points, badge,
  games counter), and after \<open>addTimeUsed\<close>.
\<close>

definition awarded :: "completeBody \<Rightarrow> childProfile \<Rightarrow> childProfile" where
  "awarded b p =
     p\<lparr>knowledgePoints := knowledgePoints p + bodyScore b,
       achievements :=
         (case bodyBadgeEarned b of
            None \<Rightarrow> achievements p
          | Some a \<Rightarrow> if a \<noteq> [] \<and> a \<notin> set (achievements p) then achievements p @ [a]
                      else achievements p),
       totalGamesPlayed := totalGamesPlayed p + 1\<rparr>"

definition debited :: "int \<Rightarrow> childProfile \<Rightarrow> childProfile" where
  "debited d p = p\<lparr>timeUsedToday := timeUsedToday p + d, totalTimeSpent := totalTimeSpent p + d\<rparr>"

text \<open>The game document \<open>recordPlay\<close> saves.\<close>

definition played :: "int \<Rightarrow> seriousGame \<Rightarrow> seriousGame" where
  "played score g =
     g\<lparr>totalPlays := totalPlays g + 1,
       averageScore :=
         (averageScore g * of_int (totalPlays g) + of_int score) / of_int (totalPlays g + 1)\<rparr>"

text \<open>The transaction \<open>addPoints\<close> appends for a completed session.\<close>

definition awardTransaction :: "date \<Rightarrow> objectId \<Rightarrow> completeBody \<Rightarrow> gameSession \<Rightarrow> knowledgePointsTransaction" where
  "awardTransaction now userId b x =
     \<lparr>txChildId = userId, points = bodyScore b, reason = SeriousGameReason (gameId x),
      txTimestamp = now\<rparr>"

text \<open>The sum of the amounts of a child's entries in the points transaction log.\<close>

definition pointsLogged :: "objectId \<Rightarrow> knowledgePointsTransaction list \<Rightarrow> int" where
  "pointsLogged cid txs = sum_list (map points (filter (\<lambda>t. txChildId t = cid) txs))"

text \<open>No stored daily limit is above the schema's maximum.\<close>

definition limitsWithinCap :: "db \<Rightarrow> bool" where
  "limitsWithinCap s = list_all (\<lambda>q. timeLimitMinutes q \<le> 240) (childProfiles s)"

text \<open>
  The child's progress of the specification's data model: point balance, achievement
  set and the two cumulative counters.
\<close>

definition progress :: "childProfile \<Rightarrow> int \<times> string list \<times> int \<times> int" where
  "progress p = (knowledgePoints p, achievements p, totalGamesPlayed p, totalTimeSpent p)"

text \<open>
  The unique indexes of the child profiles (\<open>_id\<close> and \<open>childId\<close>), and the
  ledger property: every profile's point balance is the sum of its logged amounts.
\<close>

definition uniqueProfiles :: "db \<Rightarrow> bool" where
  "uniqueProfiles s \<longleftrightarrow>
     distinct (map cp_id (childProfiles s)) \<and> distinct (map childId (childProfiles s))"

definition ledgerBalanced :: "db \<Rightarrow> bool" where
  "ledgerBalanced s =
     list_all (\<lambda>p. knowledgePoints p = pointsLogged (childId p) (transactions s)) (childProfiles s)"

definition ledgerInvariant :: "db \<Rightarrow> bool" where
  "ledgerInvariant s \<longleftrightarrow> writesLeft s = None \<and> uniqueProfiles s \<and> ledgerBalanced s"

text \<open>The in-memory document \<open>p\<close> is the stored one.\<close>

definition stored :: "childProfile \<Rightarrow> db \<Rightarrow> bool" where
  "stored p s \<longleftrightarrow> p \<in> set (childProfiles s)"

section \<open>Reasoning about computations\<close>

text \<open>
  \<open>preserves I m\<close>: the property \<open>I\<close> of the database survives \<open>m\<close>, whether \<open>m\<close>
  returns or throws.  \<open>hoare P m Q E\<close>: from a database satisfying \<open>P\<close>, \<open>m\<close> ends
  with \<open>Q\<close> of its result when it returns and with \<open>E\<close> when it throws.
\<close>

definition preserves :: "(db \<Rightarrow> bool) \<Rightarrow> (db \<Rightarrow> 'r \<times> db) \<Rightarrow> bool" where
  "preserves I m = (\<forall>s. I s \<longrightarrow> I (snd (m s)))"

definition hoare ::
  "(db \<Rightarrow> bool) \<Rightarrow> 'a io \<Rightarrow> ('a \<Rightarrow> db \<Rightarrow> bool) \<Rightarrow> (db \<Rightarrow> bool) \<Rightarrow> bool" where
  "hoare P m Q E =
     (\<forall>s. P s \<longrightarrow> (case m s of (Inl e, s') \<Rightarrow> E s' | (Inr a, s') \<Rightarrow> Q a s'))"

section \<open>Sample data\<close>

text \<open>
  Concrete platforms, dictionaries and databases on which the theorems below are
  instantiated.  \<open>js\<close> turns a string literal of the theory into a JavaScript string:
  an ASCII character is its own code unit.
\<close>

definition js :: "string \<Rightarrow> jsString" where
  "js cs = map of_char cs"

text \<open>
  A sample runtime.  Its \<open>toLowerCase\<close> covers the letters of Basic Latin and the
  basic Greek capitals, with the final-sigma rule of the Unicode special casing: a
  capital sigma that follows a letter and is not followed by one becomes the final
  form.  On strings of these letters and spaces it is what
  \<open>String.prototype.toLowerCase\<close> returns.  Its \<open>trim\<close> strips spaces, and its
  local time is UTC.
\<close>

definition isSampleLetter :: "nat \<Rightarrow> bool" where
  "isSampleLetter c \<longleftrightarrow>
     (65 \<le> c \<and> c \<le> 90) \<or> (97 \<le> c \<and> c \<le> 122)
     \<or> (913 \<le> c \<and> c \<le> 937 \<and> c \<noteq> 930) \<or> (945 \<le> c \<and> c \<le> 969)"

definition sampleLowerLetter :: "nat \<Rightarrow> nat" where
  "sampleLowerLetter c =
     (if (65 \<le> c \<and> c \<le> 90) \<or> (913 \<le> c \<and> c \<le> 937 \<and> c \<noteq> 930) then c + 32 else c)"

fun sampleLowerFrom :: "bool \<Rightarrow> jsString \<Rightarrow> jsString" where
  "sampleLowerFrom afterLetter [] = []"
| "sampleLowerFrom afterLetter (c # cs) =
     (if c = 931 \<and> afterLetter \<and> (case cs of [] \<Rightarrow> True | d # _ \<Rightarrow> \<not> isSampleLetter d)
      then 962 else sampleLowerLetter c) # sampleLowerFrom (isSampleLetter c) cs"

definition sampleTrim :: "jsString \<Rightarrow> jsString" where
  "sampleTrim cs = rev (dropWhile (\<lambda>c. c = 32) (rev (dropWhile (\<lambda>c. c = 32) cs)))"

definition samplePlatform :: platform where
  "samplePlatform =
     \<lparr>toLowerCase = sampleLowerFrom False, trim = sampleTrim, timezoneOffset = (\<lambda>t. 0)\<rparr>"

text \<open>
  The capital and the small form of one letter, for Basic Latin and for basic Greek
  (the capital sigma has two small forms).
\<close>

definition asciiSameLetter :: "nat \<Rightarrow> nat \<Rightarrow> bool" where
  "asciiSameLetter c d \<longleftrightarrow>
     c = d \<or> (65 \<le> c \<and> c \<le> 90 \<and> d = c + 32) \<or> (65 \<le> d \<and> d \<le> 90 \<and> c = d + 32)"

definition greekSameLetter :: "nat \<Rightarrow> nat \<Rightarrow> bool" where
  "greekSameLetter c d \<longleftrightarrow>
     c = d
     \<or> (913 \<le> c \<and> c \<le> 937 \<and> c \<noteq> 930 \<and> d = c + 32)
     \<or> (913 \<le> d \<and> d \<le> 937 \<and> d \<noteq> 930 \<and> c = d + 32)
     \<or> (c = 931 \<and> d = 962) \<or> (c = 962 \<and> d = 931)"

definition stupidEntry :: safetyThreat where
  "stupidEntry =
     \<lparr>threat_id = 60, keyword = js ''stupid'', severity = Low, category = Cyberbullying,
      isActive = True\<rparr>"

definition sampleDictionary :: "safetyThreat list" where
  "sampleDictionary =
     [stupidEntry,
      \<lparr>threat_id = 61, keyword = js ''so'', severity = High, category = Other,
       isActive = False\<rparr>,
      \<lparr>threat_id = 62, keyword = js ''dumb'', severity = Low, category = Cyberbullying,
       isActive = True\<rparr>,
      \<lparr>threat_id = 63, keyword = js ''you are'', severity = Medium, category = PersonalInfo,
       isActive = True\<rparr>]"

text \<open>
  The Greek word for road in capital letters (omicron, delta, omicron, sigma), and a
  dictionary entry whose keyword is the small sigma.
\<close>

definition odosCapitals :: jsString where
  "odosCapitals = [927, 916, 927, 931]"

definition sigmaEntry :: safetyThreat where
  "sigmaEntry =
     \<lparr>threat_id = 64, keyword = [963], severity = Low, category = Other, isActive = True\<rparr>"

definition sampleChild :: childProfile where
  "sampleChild =
     \<lparr>cp_id = 10, childId = 1, ageGroup = Age6to8, knowledgePoints = 0, achievements = [],
      timeLimitMinutes = 60, timeUsedToday = 55, lastTimeReset = 0, guardianId = Some 2,
      allowedGames = [], totalGamesPlayed = 0, totalTimeSpent = 100\<rparr>"

definition sampleGuardian :: guardianProfile where
  "sampleGuardian = \<lparr>gp_id = 20, gpGuardianId = 2, linkedChildren = [10], defaultTimeLimit = 60\<rparr>"

definition sampleGame :: seriousGame where
  "sampleGame =
     \<lparr>game_id = 30, gameIsActive = True, appropriateAgeGroups = [Age6to8], maxPoints = 100,
      totalPlays = 0, averageScore = 0\<rparr>"

definition sampleDb :: db where
  "sampleDb =
     \<lparr>childProfiles = [sampleChild], guardianProfiles = [sampleGuardian], gameSessions = [],
      seriousGames = [sampleGame], transactions = [], timeUsageLogs = [], safetyAlerts = [],
      notifications = [], threatDictionary = sampleDictionary, chatMessages = [],
      auditLogs = [], nextId = 100, writesLeft = None\<rparr>"

definition sampleSession :: gameSession where
  "sampleSession =
     \<lparr>gs_id = 40, sessionChildId = 1, gameId = 30, scoreRaw = 0, kpEarned = 0, startTime = 0,
      endTime = None, questionsAnswered = 0, correctAnswers = 0, hintsUsed = 0,
      badgeEarned = None, isCompleted = False\<rparr>"

definition sampleBody :: completeBody where
  "sampleBody =
     \<lparr>bodyScore = 80, bodyCorrectAnswers = 4, bodyQuestionsAnswered = 5, bodyHintsUsed = Some 1,
      bodyBadgeEarned = Some ''Math Wizard''\<rparr>"

text \<open>The sample database with one open session of the sample child.\<close>

definition playDb :: db where
  "playDb = sampleDb\<lparr>gameSessions := [sampleSession]\<rparr>"

text \<open>The same, on a store that performs \<open>n\<close> more writes and then fails.\<close>

definition faultyDb :: "nat \<Rightarrow> db" where
  "faultyDb n = playDb\<lparr>writesLeft := Some n\<rparr>"

definition sampleAlert :: safetyAlert where
  "sampleAlert =
     \<lparr>alert_id = 50, alertChildId = 1, alertSeverity = Low, alertType = AlertCyberbullying,
      message = FlaggedMessageDetected 1, triggerKeyword = Some (js ''stupid''), createdAt = 0,
      resolved = False, resolvedAt = None, resolvedBy = None, expiresAt = 7776000000\<rparr>"

definition alertDb :: db where
  "alertDb = sampleDb\<lparr>safetyAlerts := [sampleAlert]\<rparr>"

text \<open>The sample database with the daily limit of the sample child at 200 minutes.\<close>

definition nearCapChild :: childProfile where
  "nearCapChild = sampleChild\<lparr>timeLimitMinutes := 200\<rparr>"

definition nearCapDb :: db where
  "nearCapDb = sampleDb\<lparr>childProfiles := [nearCapChild]\<rparr>"

text \<open>Lower-casing of a single Basic Latin letter.\<close>

definition asciiLowerLetter :: "nat \<Rightarrow> nat" where
  "asciiLowerLetter c = (if 65 \<le> c \<and> c \<le> 90 then c + 32 else c)"

section \<open>Storage lemmas\<close>

lemmas io_defs = andThen_def gets_def ret_def throw_def catch500_def

lemma find_put_same_key:
  assumes "map_option ident (find (\<lambda>q. key q = k) ps) = Some (ident p')" and "key p' = k"
  shows "find (\<lambda>q. key q = k) (map (\<lambda>q. if ident q = ident p' then p' else q) ps) = Some p'"
  using assms by (induction ps) (auto split: if_splits)

lemma find_childId_put:
  assumes "find (\<lambda>q. childId q = cid) ps = Some p" "cp_id p' = cp_id p" "childId p' = childId p"
  shows "find (\<lambda>q. childId q = cid) (putChildProfile p' ps) = Some p'"
proof -
  have "childId p = cid" using assms(1) by (auto simp: find_Some_iff)
  then show ?thesis
    unfolding putChildProfile_def using assms by (intro find_put_same_key) simp_all
qed

lemma find_childId_put_simp:
  "map_option cp_id (find (\<lambda>q. childId q = cid) ps) = Some (cp_id p') \<Longrightarrow> childId p' = cid \<Longrightarrow>
   find (\<lambda>q. childId q = cid) (putChildProfile p' ps) = Some p'"
  unfolding putChildProfile_def by (rule find_put_same_key) simp_all

lemma find_gs_id_put_simp:
  "map_option gs_id (find (\<lambda>y. gs_id y = sid) xs) = Some (gs_id x') \<Longrightarrow>
   find (\<lambda>y. gs_id y = sid) (putGameSession x' xs) = Some x'"
  unfolding putGameSession_def by (rule find_put_same_key) (auto simp: find_Some_iff)

lemma find_game_id_put_simp:
  "map_option game_id (find (\<lambda>h. game_id h = gid) gs) = Some (game_id g') \<Longrightarrow>
   find (\<lambda>h. game_id h = gid) (putSeriousGame g' gs) = Some g'"
  unfolding putSeriousGame_def by (rule find_put_same_key) (auto simp: find_Some_iff)

lemma putChildProfile_twice:
  "cp_id q = cp_id q' \<Longrightarrow> putChildProfile q (putChildProfile q' ps) = putChildProfile q ps"
  by (induction ps) (auto simp: putChildProfile_def)

lemma find_append_fresh:
  assumes "\<forall>y\<in>set xs. \<not> P y" "P x"
  shows "find P (xs @ [x]) = Some x"
  using assms by (induction xs) simp_all

lemma saveChildProfile_ok:
  "validChildProfile p \<Longrightarrow> writesLeft s = None \<Longrightarrow>
   saveChildProfile p s = (Inr p, s\<lparr>childProfiles := putChildProfile p (childProfiles s)\<rparr>)"
  by (simp add: saveChildProfile_def andThen_def storageWrite_def)

lemma saveGameSession_ok:
  "validGameSession x \<Longrightarrow> writesLeft s = None \<Longrightarrow>
   saveGameSession x s = (Inr x, s\<lparr>gameSessions := putGameSession x (gameSessions s)\<rparr>)"
  by (simp add: saveGameSession_def andThen_def storageWrite_def)

lemma saveSeriousGame_ok:
  "validSeriousGame g \<Longrightarrow> writesLeft s = None \<Longrightarrow>
   saveSeriousGame g s = (Inr g, s\<lparr>seriousGames := putSeriousGame g (seriousGames s)\<rparr>)"
  by (simp add: saveSeriousGame_def andThen_def storageWrite_def)

lemma createTransaction_ok:
  "writesLeft s = None \<Longrightarrow>
   createTransaction t s = (Inr (), s\<lparr>transactions := transactions s @ [t]\<rparr>)"
  by (simp add: createTransaction_def andThen_def storageWrite_def)

lemma createTimeUsageLog_ok:
  "validTimeUsageLog l \<Longrightarrow> writesLeft s = None \<Longrightarrow>
   createTimeUsageLog l s = (Inr (), s\<lparr>timeUsageLogs := timeUsageLogs s @ [l]\<rparr>)"
  by (simp add: createTimeUsageLog_def andThen_def storageWrite_def)

lemmas storage_ok =
  saveChildProfile_ok saveGameSession_ok saveSeriousGame_ok createTransaction_ok
  createTimeUsageLog_ok

lemmas find_put = find_childId_put_simp find_gs_id_put_simp putChildProfile_twice

lemma storageWrite_Suc:
  "writesLeft s = Some (Suc n) \<Longrightarrow> storageWrite s = (Inr (), s\<lparr>writesLeft := Some n\<rparr>)"
  by (simp add: storageWrite_def)

lemma storageWrite_0:
  "writesLeft s = Some 0 \<Longrightarrow> storageWrite s = (Inl StorageFailure, s)"
  by (simp add: storageWrite_def)

section \<open>Durations and the documents of a completion\<close>

lemma roundMinutes_nonneg: "0 \<le> ms \<Longrightarrow> 0 \<le> roundMinutes ms"
  unfolding roundMinutes_def by (simp add: pos_imp_zdiv_nonneg_iff)

lemma ceilMinutes_nonneg: "0 \<le> ms \<Longrightarrow> 0 \<le> ceilMinutes ms"
  unfolding ceilMinutes_def using div_nonpos_pos_le0 [of "- ms" 60000] by simp

lemma durationToLog_nonneg:
  "startTime x \<le> now \<Longrightarrow> now \<le> later \<Longrightarrow> 0 \<le> durationToLog later (completedSession now b x)"
  by (simp add: durationToLog_def sessionDurationMinutes_def completedSession_def
      roundMinutes_nonneg ceilMinutes_nonneg)

lemma completedSession_fields:
  "gs_id (completedSession now b x) = gs_id x"
  "sessionChildId (completedSession now b x) = sessionChildId x"
  "gameId (completedSession now b x) = gameId x"
  "startTime (completedSession now b x) = startTime x"
  "endTime (completedSession now b x) = Some now"
  "kpEarned (completedSession now b x) = bodyScore b"
  "scoreRaw (completedSession now b x) = bodyScore b"
  "isCompleted (completedSession now b x)"
  by (simp_all add: completedSession_def)

lemma awarded_fields:
  "cp_id (awarded b p) = cp_id p"
  "childId (awarded b p) = childId p"
  "knowledgePoints (awarded b p) = knowledgePoints p + bodyScore b"
  "timeLimitMinutes (awarded b p) = timeLimitMinutes p"
  "timeUsedToday (awarded b p) = timeUsedToday p"
  "totalTimeSpent (awarded b p) = totalTimeSpent p"
  "lastTimeReset (awarded b p) = lastTimeReset p"
  "totalGamesPlayed (awarded b p) = totalGamesPlayed p + 1"
  by (simp_all add: awarded_def)

lemma debited_fields:
  "cp_id (debited d p) = cp_id p"
  "childId (debited d p) = childId p"
  "knowledgePoints (debited d p) = knowledgePoints p"
  "achievements (debited d p) = achievements p"
  "timeLimitMinutes (debited d p) = timeLimitMinutes p"
  "timeUsedToday (debited d p) = timeUsedToday p + d"
  "totalTimeSpent (debited d p) = totalTimeSpent p + d"
  "lastTimeReset (debited d p) = lastTimeReset p"
  "totalGamesPlayed (debited d p) = totalGamesPlayed p"
  by (simp_all add: debited_def)

lemma afterReset_fields:
  "cp_id (afterReset pf now p) = cp_id p"
  "childId (afterReset pf now p) = childId p"
  "knowledgePoints (afterReset pf now p) = knowledgePoints p"
  "achievements (afterReset pf now p) = achievements p"
  "timeLimitMinutes (afterReset pf now p) = timeLimitMinutes p"
  "totalTimeSpent (afterReset pf now p) = totalTimeSpent p"
  "totalGamesPlayed (afterReset pf now p) = totalGamesPlayed p"
  by (simp_all add: afterReset_def)

lemma afterReset_valid: "validChildProfile p \<Longrightarrow> validChildProfile (afterReset pf now p)"
  by (simp add: validChildProfile_def afterReset_def)

lemma afterReset_same_day:
  "toDateString pf now = toDateString pf (lastTimeReset p) \<Longrightarrow> afterReset pf now p = p"
  by (simp add: afterReset_def)

section \<open>The content scanner\<close>

lemma str_includes_sublist: "str_includes s k = sublist k s"
  by (induction s) (auto simp: sublist_Cons_right)

lemma foldl_push_filter:
  "foldl (\<lambda>acc x. if P x then acc @ [f x] else acc) acc xs = acc @ map f (filter P xs)"
  by (induction xs arbitrary: acc) simp_all

lemma checkContent_filter:
  "checkContent pf dictionary msgText =
     map toFound
       (filter (\<lambda>threat. isActive threat \<and> sublist (keyword threat) (toLowerCase pf msgText))
          dictionary)"
  by (simp add: checkContent_def foldl_push_filter str_includes_sublist)

text \<open>
  Where lower-casing maps letter by letter and the keyword is made of lower-case
  letters, the keyword is found in the lower-cased text exactly when it occurs in the
  text up to case.
\<close>

lemma prefix_map_matchesAt:
  assumes "\<And>c d. lowerLetter c = lowerLetter d \<longleftrightarrow> sameLetter c d"
    and "map lowerLetter kw = kw"
  shows "prefix kw (map lowerLetter cs) \<longleftrightarrow> matchesAt sameLetter kw cs"
  using assms(2)
proof (induction kw arbitrary: cs)
  case Nil
  then show ?case by simp
next
  case (Cons k ks)
  then have k: "lowerLetter k = k" and ks: "map lowerLetter ks = ks" by simp_all
  show ?case
  proof (cases cs)
    case Nil
    then show ?thesis by simp
  next
    case (Cons c cs')
    have "k = lowerLetter c \<longleftrightarrow> sameLetter k c" using assms(1) [of k c] k by simp
    then show ?thesis using Cons Cons.IH [OF ks, of cs'] by simp
  qed
qed

lemma sublist_map_occurs:
  assumes "\<And>c d. lowerLetter c = lowerLetter d \<longleftrightarrow> sameLetter c d"
    and "map lowerLetter kw = kw"
  shows "sublist kw (map lowerLetter cs) \<longleftrightarrow> occursIgnoringCase sameLetter kw cs"
proof (induction cs)
  case Nil
  then show ?case by (cases kw) simp_all
next
  case (Cons c cs)
  have "prefix kw (map lowerLetter (c # cs)) \<longleftrightarrow> matchesAt sameLetter kw (c # cs)"
    using assms by (rule prefix_map_matchesAt)
  then show ?case using Cons by (simp add: sublist_Cons_right)
qed

lemma js_stupid_text:
  "sublist (js ''stupid'') (js ''you are so stupid'')"
  unfolding str_includes_sublist [symmetric] js_def by code_simp


text \<open>
  C9 as amended.  For every runtime, every text and every dictionary state,
  \<open>checkContent\<close> returns exactly the active entries whose stored keyword is a
  substring of the lower-case form of the text, in dictionary order, each with its
  keyword, severity and category.  Where lower-casing acts on the text letter by
  letter and the stored keywords are made of lower-case letters, these are exactly the
  active entries whose keyword occurs in the text as a case-insensitive substring.  In
  particular, on a runtime that leaves \<open>you are so stupid\<close> as it is, scanning it
  against the single active entry \<open>stupid\<close> (Low, Cyberbullying) returns exactly that
  match, and its highest severity is Low.
\<close>

theorem scan_matches_lowercased_text:
  "checkContent pf dictionary msgText
     = map toFound
         (filter (\<lambda>threat. isActive threat \<and> sublist (keyword threat) (toLowerCase pf msgText))
            dictionary)
   \<and> (toLowerCase pf msgText = map lowerLetter msgText
        \<and> (\<forall>threat\<in>set dictionary. map lowerLetter (keyword threat) = keyword threat)
        \<and> (\<forall>c d. lowerLetter c = lowerLetter d \<longleftrightarrow> sameLetter c d)
      \<longrightarrow> checkContent pf dictionary msgText
            = map toFound
                (filter (\<lambda>threat. isActive threat
                           \<and> occursIgnoringCase sameLetter (keyword threat) msgText)
                   dictionary))
   \<and> (toLowerCase pf (js ''you are so stupid'') = js ''you are so stupid''
      \<longrightarrow> checkContent pf [stupidEntry] (js ''you are so stupid'')
            = [\<lparr>foundKeyword = js ''stupid'', foundSeverity = Low,
                foundCategory = Cyberbullying\<rparr>]
          \<and> getHighestSeverity (checkContent pf [stupidEntry] (js ''you are so stupid''))
            = Some Low)"
proof (intro conjI impI)
  show "checkContent pf dictionary msgText
     = map toFound
         (filter (\<lambda>threat. isActive threat \<and> sublist (keyword threat) (toLowerCase pf msgText))
            dictionary)"
    by (rule checkContent_filter)
next
  assume h: "toLowerCase pf msgText = map lowerLetter msgText
        \<and> (\<forall>threat\<in>set dictionary. map lowerLetter (keyword threat) = keyword threat)
        \<and> (\<forall>c d. lowerLetter c = lowerLetter d \<longleftrightarrow> sameLetter c d)"
  have "sublist (keyword threat) (toLowerCase pf msgText)
          \<longleftrightarrow> occursIgnoringCase sameLetter (keyword threat) msgText"
    if "threat \<in> set dictionary" for threat
    using sublist_map_occurs [of lowerLetter sameLetter "keyword threat" msgText] h that by simp
  then show "checkContent pf dictionary msgText
            = map toFound
                (filter (\<lambda>threat. isActive threat
                           \<and> occursIgnoringCase sameLetter (keyword threat) msgText)
                   dictionary)"
    unfolding checkContent_filter
    by (intro arg_cong [where f = "map toFound"] filter_cong) auto
next
  assume l: "toLowerCase pf (js ''you are so stupid'') = js ''you are so stupid''"
  show "checkContent pf [stupidEntry] (js ''you are so stupid'')
            = [\<lparr>foundKeyword = js ''stupid'', foundSeverity = Low,
                foundCategory = Cyberbullying\<rparr>]"
    by (simp add: checkContent_filter l stupidEntry_def toFound_def js_stupid_text)
  then show "getHighestSeverity (checkContent pf [stupidEntry] (js ''you are so stupid''))
            = Some Low"
    by (simp add: getHighestSeverity_def)
qed

text \<open>
  The claim as stated fails where lower-casing depends on the position of a letter.
  The runtime lower-cases the capital sigma at the end of a word to the final form, so
  the keyword of the active entry, the small sigma, is not found in the lower-cased
  text although the text holds its capital.
\<close>

theorem scan_misses_final_sigma:
  "toLowerCase samplePlatform odosCapitals = [959, 948, 959, 962]
   \<and> isActive sigmaEntry
   \<and> toLowerCase samplePlatform (keyword sigmaEntry) = keyword sigmaEntry
   \<and> occursIgnoringCase greekSameLetter (keyword sigmaEntry) odosCapitals
   \<and> checkContent samplePlatform [sigmaEntry] odosCapitals = []"
  by (simp add: checkContent_filter samplePlatform_def odosCapitals_def sigmaEntry_def
      isSampleLetter_def sampleLowerLetter_def greekSameLetter_def
      str_includes_sublist [symmetric])

lemma asciiLower_sameLetter:
  "asciiLowerLetter c = asciiLowerLetter d \<longleftrightarrow> asciiSameLetter c d"
  by (auto simp: asciiLowerLetter_def asciiSameLetter_def)

theorem scan_matches_lowercased_text_witness:
  "toLowerCase samplePlatform (js ''You ARE so Stupid'')
     = map asciiLowerLetter (js ''You ARE so Stupid'')
   \<and> map (map asciiLowerLetter \<circ> keyword) sampleDictionary = map keyword sampleDictionary
   \<and> checkContent samplePlatform sampleDictionary (js ''You ARE so Stupid'')
       = [\<lparr>foundKeyword = js ''stupid'', foundSeverity = Low, foundCategory = Cyberbullying\<rparr>,
          \<lparr>foundKeyword = js ''you are'', foundSeverity = Medium,
            foundCategory = PersonalInfo\<rparr>]"
proof -
  have t: "js ''You ARE so Stupid''
             = [89, 111, 117, 32, 65, 82, 69, 32, 115, 111, 32, 83, 116, 117, 112, 105, 100]"
    unfolding js_def by code_simp
  have k: "js ''stupid'' = [115, 116, 117, 112, 105, 100]" "js ''so'' = [115, 111]"
    "js ''dumb'' = [100, 117, 109, 98]" "js ''you are'' = [121, 111, 117, 32, 97, 114, 101]"
    unfolding js_def by code_simp+
  have h1: "toLowerCase samplePlatform (js ''You ARE so Stupid'')
              = map asciiLowerLetter (js ''You ARE so Stupid'')"
    by (simp add: t samplePlatform_def isSampleLetter_def sampleLowerLetter_def
        asciiLowerLetter_def)
  have h2: "\<forall>threat\<in>set sampleDictionary. map asciiLowerLetter (keyword threat) = keyword threat"
    by (simp add: sampleDictionary_def stupidEntry_def k asciiLowerLetter_def)
  have h3: "\<forall>c d. asciiLowerLetter c = asciiLowerLetter d \<longleftrightarrow> asciiSameLetter c d"
    by (simp add: asciiLower_sameLetter)
  from scan_matches_lowercased_text
         [of samplePlatform sampleDictionary "js ''You ARE so Stupid''" asciiLowerLetter
            asciiSameLetter]
    h1 h2 h3
  have "checkContent samplePlatform sampleDictionary (js ''You ARE so Stupid'')
          = map toFound
              (filter (\<lambda>threat. isActive threat
                         \<and> occursIgnoringCase asciiSameLetter (keyword threat)
                             (js ''You ARE so Stupid''))
                 sampleDictionary)"
    by blast
  then show ?thesis
    using h1
    by (simp add: sampleDictionary_def stupidEntry_def t k asciiSameLetter_def toFound_def
        asciiLowerLetter_def)
qed

section \<open>The daily reset\<close>

lemma resetDailyTime_new_day:
  assumes "toDateString pf now \<noteq> toDateString pf (lastTimeReset p)" "validChildProfile p" "writesLeft s = None"
  shows "resetDailyTime pf now p s =
     (Inr (p\<lparr>timeUsedToday := 0, lastTimeReset := now\<rparr>),
      s\<lparr>childProfiles := putChildProfile (p\<lparr>timeUsedToday := 0, lastTimeReset := now\<rparr>) (childProfiles s)\<rparr>)"
proof -
  have "validChildProfile (p\<lparr>timeUsedToday := 0, lastTimeReset := now\<rparr>)"
    using assms(2) by (simp add: validChildProfile_def)
  then show ?thesis using assms by (simp add: resetDailyTime_def saveChildProfile_ok)
qed

lemma resetDailyTime_same_day:
  "toDateString pf now = toDateString pf (lastTimeReset p) \<Longrightarrow> resetDailyTime pf now p s = (Inr p, s)"
  by (simp add: resetDailyTime_def ret_def)





section \<open>The cap on the daily limit\<close>



lemma limits_put:
  "timeLimitMinutes p \<le> 240 \<Longrightarrow> list_all (\<lambda>q. timeLimitMinutes q \<le> 240) ps \<Longrightarrow>
   list_all (\<lambda>q. timeLimitMinutes q \<le> 240) (putChildProfile p ps)"
  by (induction ps) (auto simp: putChildProfile_def)

lemma addTime_over_cap:
  assumes "findOneGuardianProfile userId s = Some g"
    and "childProfileId \<in> set (linkedChildren g)"
    and "findChildProfileById childProfileId s = Some p"
    and "5 \<le> m" and "m \<le> 60" and "240 < timeLimitMinutes p + m"
  shows "addTime now userId childProfileId m aid s
           = (Response 500 (Message ''Error adding extra time''), s)"
  using assms
  by (simp add: addTime_def canAccessChild_def catch500_def andThen_def gets_def
      saveChildProfile_def validChildProfile_def throw_def)

named_theorems preserves_intros

lemma preserves_ret [preserves_intros]: "preserves I (ret a)"
  by (simp add: preserves_def ret_def)

lemma preserves_throw [preserves_intros]: "preserves I (throw e)"
  by (simp add: preserves_def throw_def)

lemma preserves_gets [preserves_intros]: "preserves I (gets f)"
  by (simp add: preserves_def gets_def)

lemma preserves_pure [preserves_intros]: "preserves I (Pair r)"
  by (simp add: preserves_def)

lemma preserves_andThen [preserves_intros]:
  "preserves I m \<Longrightarrow> (\<And>a. preserves I (f a)) \<Longrightarrow> preserves I (andThen m f)"
  by (auto simp: preserves_def andThen_def split: prod.splits sum.splits)

lemma preserves_catch500 [preserves_intros]:
  "preserves I m \<Longrightarrow> preserves I (catch500 msg m)"
  by (auto simp: preserves_def catch500_def split: prod.splits sum.splits)

lemma preserves_if [preserves_intros]:
  "(c \<Longrightarrow> preserves I a) \<Longrightarrow> (\<not> c \<Longrightarrow> preserves I b) \<Longrightarrow> preserves I (if c then a else b)"
  by simp

lemma preserves_option [preserves_intros]:
  "preserves I a \<Longrightarrow> (\<And>y. preserves I (b y)) \<Longrightarrow>
   preserves I (case x of None \<Rightarrow> a | Some y \<Rightarrow> b y)"
  by (cases x) simp_all

lemma preserves_list [preserves_intros]:
  "preserves I a \<Longrightarrow> (\<And>y ys. preserves I (b y ys)) \<Longrightarrow>
   preserves I (case x of [] \<Rightarrow> a | y # ys \<Rightarrow> b y ys)"
  by (cases x) simp_all

lemma preserves_let [preserves_intros]:
  "preserves I (f v) \<Longrightarrow> preserves I (let x = v in f x)"
  by simp

lemma preserves_authenticateChild:
  assumes "preserves I (andThen (gets (findOneChildProfile userId)) (\<lambda>found.
             case found of
               None \<Rightarrow> ret ()
             | Some childProfile \<Rightarrow> andThen (resetDailyTime pf now childProfile) (\<lambda>_. ret ())))"
    and "preserves I next"
  shows "preserves I (authenticateChild pf now userId next)"
  using assms
  by (auto simp: preserves_def authenticateChild_def split: prod.splits sum.splits)

lemma preserves_checkScreenTime:
  assumes "preserves I (checkTimeLimit pf now userId)" "\<And>ts. preserves I (next ts)"
  shows "preserves I (checkScreenTime pf now userId next)"
  using assms
  by (auto simp: preserves_def checkScreenTime_def split: prod.splits sum.splits)

lemma preserves_catchDuplicate:
  assumes "preserves I m"
  shows "preserves I
     (\<lambda>s. case m s of
            (Inl DuplicateKeyError, s') \<Rightarrow> (r1, s')
          | (Inl e, s') \<Rightarrow> (r2, s')
          | (Inr r, s') \<Rightarrow> (r, s'))"
  using assms by (auto simp: preserves_def split: prod.splits sum.splits exn.splits)

lemma preserves_addSafetyThreat:
  assumes "\<And>kw' sev' cat'. preserves I (createSafetyThreat pf kw' sev' cat')"
    and "\<And>actor act entity. preserves I (auditLog actor act entity)"
  shows "preserves I (addSafetyThreat pf userId kw sev cat)"
  unfolding addSafetyThreat_def [abs_def]
  by (intro preserves_catchDuplicate preserves_intros assms)

lemma preserves_canAccessChild:
  assumes "preserves I next"
  shows "preserves I (canAccessChild userId pid next)"
  using assms by (auto simp: preserves_def canAccessChild_def split: option.splits)

text \<open>Writes that leave the child profiles alone.\<close>

lemma limits_storageWrite: "preserves limitsWithinCap storageWrite"
  by (auto simp: preserves_def storageWrite_def limitsWithinCap_def split: option.splits nat.splits)

lemma limits_freshId: "preserves limitsWithinCap freshId"
  by (simp add: preserves_def freshId_def limitsWithinCap_def)

lemma limits_saveChildProfile: "preserves limitsWithinCap (saveChildProfile p)"
  by (auto simp: preserves_def saveChildProfile_def andThen_def storageWrite_def throw_def
      limitsWithinCap_def validChildProfile_def limits_put split: option.splits nat.splits)

lemma limits_keep:
  assumes "\<And>s. childProfiles (snd (m s)) = childProfiles s"
  shows "preserves limitsWithinCap m"
  using assms by (simp add: preserves_def limitsWithinCap_def)

lemma childProfiles_storageWrite: "childProfiles (snd (storageWrite s)) = childProfiles s"
  by (simp add: storageWrite_def split: option.splits nat.splits)

lemma childProfiles_write:
  assumes "\<And>u s. childProfiles (snd (f u s)) = childProfiles s"
  shows "childProfiles (snd (andThen storageWrite f s)) = childProfiles s"
proof (cases "storageWrite s")
  case (Pair r s')
  with childProfiles_storageWrite [of s] have "childProfiles s' = childProfiles s" by simp
  with Pair assms show ?thesis by (cases r) (simp_all add: andThen_def)
qed

lemma childProfiles_fresh_write:
  assumes "\<And>i u s. childProfiles (snd (f i u s)) = childProfiles s"
  shows "childProfiles (snd (andThen freshId (\<lambda>i. andThen storageWrite (f i)) s)) = childProfiles s"
proof -
  have "childProfiles (snd (andThen storageWrite (f (nextId s)) (s\<lparr>nextId := Suc (nextId s)\<rparr>)))
          = childProfiles (s\<lparr>nextId := Suc (nextId s)\<rparr>)"
    by (rule childProfiles_write) (rule assms)
  then show ?thesis by (simp add: andThen_def freshId_def)
qed

lemma limits_saveGameSession: "preserves limitsWithinCap (saveGameSession x)"
  unfolding saveGameSession_def
  by (intro preserves_if preserves_throw limits_keep childProfiles_write) simp

lemma limits_saveSeriousGame: "preserves limitsWithinCap (saveSeriousGame g)"
  unfolding saveSeriousGame_def
  by (intro preserves_if preserves_throw limits_keep childProfiles_write) simp

lemma limits_saveSafetyAlert: "preserves limitsWithinCap (saveSafetyAlert a)"
  unfolding saveSafetyAlert_def by (intro limits_keep childProfiles_write) simp

lemma limits_createTransaction: "preserves limitsWithinCap (createTransaction t)"
  unfolding createTransaction_def by (intro limits_keep childProfiles_write) simp

lemma limits_createTimeUsageLog: "preserves limitsWithinCap (createTimeUsageLog l)"
  unfolding createTimeUsageLog_def
  by (intro preserves_if preserves_throw limits_keep childProfiles_write) simp

lemma limits_createGameSession: "preserves limitsWithinCap (createGameSession cid gid now)"
  unfolding createGameSession_def by (intro limits_keep childProfiles_fresh_write) (simp add: Let_def)

lemma limits_createSafetyAlert:
  "preserves limitsWithinCap (createSafetyAlert now cid sev ty msg kw)"
  unfolding createSafetyAlert_def by (intro limits_keep childProfiles_fresh_write) (simp add: Let_def)

lemma limits_insertChatMessage: "preserves limitsWithinCap (insertChatMessage cm)"
  unfolding insertChatMessage_def by (intro limits_keep childProfiles_write) simp

lemma limits_createSafetyThreat: "preserves limitsWithinCap (createSafetyThreat pf kw' sev' cat')"
  unfolding createSafetyThreat_def Let_def
  by (intro preserves_if preserves_throw preserves_andThen preserves_gets limits_keep
      childProfiles_fresh_write) simp

lemma limits_auditLog: "preserves limitsWithinCap (auditLog actor act entity)"
  unfolding auditLog_def by (intro limits_keep childProfiles_write) simp

lemma limits_findThreatByIdAndDeactivate:
  "preserves limitsWithinCap (findThreatByIdAndDeactivate threatId)"
  unfolding findThreatByIdAndDeactivate_def
  by (intro limits_keep childProfiles_write) (simp split: option.splits)

lemmas limits_other_writes =
  limits_saveGameSession limits_saveSeriousGame limits_saveSafetyAlert limits_createTransaction
  limits_createTimeUsageLog limits_createGameSession limits_createSafetyAlert
  limits_insertChatMessage limits_createSafetyThreat limits_auditLog
  limits_findThreatByIdAndDeactivate

lemma limits_update:
  "m \<le> 240 \<Longrightarrow>
   preserves limitsWithinCap (findChildProfileByIdAndUpdate pid (\<lambda>p. p\<lparr>timeLimitMinutes := m\<rparr>))"
  by (auto simp: preserves_def findChildProfileByIdAndUpdate_def andThen_def storageWrite_def
      limitsWithinCap_def limits_put split: option.splits nat.splits)

lemmas limits_prims = limits_storageWrite limits_freshId limits_saveChildProfile limits_other_writes

lemma limits_auth:
  "preserves limitsWithinCap (andThen (gets (findOneChildProfile userId)) (\<lambda>found.
             case found of
               None \<Rightarrow> ret ()
             | Some childProfile \<Rightarrow> andThen (resetDailyTime pf now childProfile) (\<lambda>_. ret ())))"
  unfolding resetDailyTime_def by (intro preserves_intros limits_prims)

lemma limits_checkTimeLimit: "preserves limitsWithinCap (checkTimeLimit pf now userId)"
  unfolding checkTimeLimit_def resetDailyTime_def by (intro preserves_intros limits_prims)

lemma limits_handle: "preserves limitsWithinCap (\<lambda>s. ((), handle pf r s))"
proof (cases r)
  case (StartSession now userId gid)
  have "preserves limitsWithinCap (startSession pf now userId gid)"
    unfolding startSession_def startHandler_def
    by (intro preserves_authenticateChild preserves_checkScreenTime preserves_intros limits_prims
        limits_auth limits_checkTimeLimit)
  then show ?thesis using StartSession by (simp add: preserves_def)
next
  case (CompleteSession now later userId sid b)
  have "preserves limitsWithinCap (completeSession pf now later userId sid b)"
    unfolding completeSession_def completeHandler_def complete_def addPoints_def
      addAchievement_def addTimeUsed_def recordPlay_def
    by (intro preserves_authenticateChild preserves_intros limits_prims limits_auth
        limits_checkTimeLimit)
  then show ?thesis using CompleteSession by (simp add: preserves_def)
next
  case (GetTimeStatus now userId)
  have "preserves limitsWithinCap (getTimeStatus pf now userId)"
    unfolding getTimeStatus_def checkTimeLimit_def resetDailyTime_def
    by (intro preserves_authenticateChild preserves_intros limits_prims limits_auth
        limits_checkTimeLimit)
  then show ?thesis using GetTimeStatus by (simp add: preserves_def)
next
  case (RequestTimeExtension now userId m)
  have "preserves limitsWithinCap (requestTimeExtension pf now userId m)"
    unfolding requestTimeExtension_def createTimeExtensionRequest_def
    by (intro preserves_authenticateChild preserves_intros limits_prims limits_auth
        limits_checkTimeLimit)
  then show ?thesis using RequestTimeExtension by (simp add: preserves_def)
next
  case (SetTimeLimit userId pid m)
  have "preserves limitsWithinCap (setTimeLimit userId pid m)"
    unfolding setTimeLimit_def
    by (intro preserves_canAccessChild preserves_intros limits_update) simp
  then show ?thesis using SetTimeLimit by (simp add: preserves_def)
next
  case (AddTime now userId pid m aid)
  have "preserves limitsWithinCap (addTime now userId pid m aid)"
    unfolding addTime_def resolve_def
    by (intro preserves_canAccessChild preserves_intros limits_prims)
  then show ?thesis using AddTime by (simp add: preserves_def)
next
  case (ResolveAlert now userId aid)
  have "preserves limitsWithinCap (resolveAlert now userId aid)"
    unfolding resolveAlert_def resolve_def
    by (intro preserves_intros limits_prims)
  then show ?thesis using ResolveAlert by (simp add: preserves_def)
next
  case (SendChatMessage now sender receiver msgText)
  have "preserves limitsWithinCap (createChatMessage pf now sender receiver msgText)"
    unfolding createChatMessage_def chatMessagePreSave_def
    by (intro preserves_intros limits_prims)
  then show ?thesis using SendChatMessage by (simp add: preserves_def)
next
  case (AddSafetyThreat userId kw sev cat)
  have "preserves limitsWithinCap (addSafetyThreat pf userId kw sev cat)"
    by (intro preserves_addSafetyThreat limits_prims)
  then show ?thesis using AddSafetyThreat by (simp add: preserves_def)
next
  case (DeactivateSafetyThreat userId threatId)
  have "preserves limitsWithinCap (deactivateSafetyThreat userId threatId)"
    unfolding deactivateSafetyThreat_def
    by (intro preserves_intros limits_prims)
  then show ?thesis using DeactivateSafetyThreat by (simp add: preserves_def)
qed

lemma limits_serve: "limitsWithinCap s \<Longrightarrow> limitsWithinCap (serve pf rs s)"
proof (induction rs arbitrary: s)
  case Nil then show ?case by simp
next
  case (Cons r rs)
  from limits_handle [of pf r] Cons.prems have "limitsWithinCap (handle pf r s)"
    by (simp add: preserves_def)
  then show ?case using Cons.IH by simp
qed

text \<open>
  C10.  The stored daily limit never exceeds 240: whatever requests the server handles,
  from a database where no limit is above 240 it reaches only such databases.  And
  for a guardian linked to the child, when the child's limit plus a requested
  extension of 5 to 60 minutes is above 240, the add-time request is answered with
  status 500 (the internal error of the handler, not a 400 rejection) and the
  database is left as it was: the limit is not raised and the alert passed along
  with the request is not resolved.
\<close>

theorem add_time_beyond_cap_refused:
  assumes "findOneGuardianProfile userId s = Some g"
    and "childProfileId \<in> set (linkedChildren g)"
    and "findChildProfileById childProfileId s = Some p"
    and "5 \<le> m" and "m \<le> 60" and "240 < timeLimitMinutes p + m"
  shows "addTime now userId childProfileId m aid s
           = (Response 500 (Message ''Error adding extra time''), s)
         \<and> (limitsWithinCap s \<longrightarrow> limitsWithinCap (serve pf requests s))"
  using addTime_over_cap [OF assms] limits_serve by simp

theorem add_time_beyond_cap_refused_witness:
  "findOneGuardianProfile 2 nearCapDb = Some sampleGuardian
   \<and> findChildProfileById 10 nearCapDb = Some nearCapChild
   \<and> timeLimitMinutes nearCapChild = 200
   \<and> addTime 1000 2 10 60 None nearCapDb
       = (Response 500 (Message ''Error adding extra time''), nearCapDb)
   \<and> limitsWithinCap nearCapDb
   \<and> limitsWithinCap
       (serve samplePlatform
          [AddTime 1000 2 10 30 None, AddTime 2000 2 10 30 None, SetTimeLimit 2 10 240,
           AddTime 3000 2 10 5 None] nearCapDb)"
proof -
  have h1: "findOneGuardianProfile 2 nearCapDb = Some sampleGuardian"
    by (simp add: findOneGuardianProfile_def nearCapDb_def sampleDb_def sampleGuardian_def)
  have h2: "10 \<in> set (linkedChildren sampleGuardian)"
    by (simp add: sampleGuardian_def)
  have h3: "findChildProfileById 10 nearCapDb = Some nearCapChild"
    by (simp add: findChildProfileById_def nearCapDb_def sampleDb_def nearCapChild_def
        sampleChild_def)
  have h4: "240 < timeLimitMinutes nearCapChild + 60"
    by (simp add: nearCapChild_def sampleChild_def)
  have h5: "limitsWithinCap nearCapDb"
    by (simp add: limitsWithinCap_def nearCapDb_def sampleDb_def nearCapChild_def
        sampleChild_def)
  from add_time_beyond_cap_refused [OF h1 h2 h3 _ _ h4, of 1000 None samplePlatform
      "[AddTime 1000 2 10 30 None, AddTime 2000 2 10 30 None, SetTimeLimit 2 10 240,
        AddTime 3000 2 10 5 None]"] h1 h3 h5
  show ?thesis by (simp add: nearCapChild_def sampleChild_def)
qed

section \<open>Completing a session\<close>

lemma complete_ok:
  assumes profile: "findOneChildProfile (sessionChildId x) s = Some p" "validChildProfile p"
    and store: "writesLeft s = None"
    and score: "0 \<le> bodyScore b"
    and game: "\<forall>g. findSeriousGameById (gameId x) s = Some g \<longrightarrow> validSeriousGame g"
  shows "complete now x (bodyScore b) (bodyCorrectAnswers b) (bodyQuestionsAnswered b)
             (case bodyHintsUsed b of None \<Rightarrow> 0 | Some h \<Rightarrow> h) (bodyBadgeEarned b) s =
     (Inr (completedSession now b x),
      s\<lparr>gameSessions := putGameSession (completedSession now b x) (gameSessions s),
        childProfiles := putChildProfile (awarded b p) (childProfiles s),
        transactions := transactions s @ [awardTransaction now (sessionChildId x) b x],
        seriousGames :=
          (case findSeriousGameById (gameId x) s of
             None \<Rightarrow> seriousGames s
           | Some g \<Rightarrow> putSeriousGame (played (bodyScore b) g) (seriousGames s))\<rparr>)"
proof -
  have cid: "childId p = sessionChildId x"
    using profile(1) by (auto simp: findOneChildProfile_def find_Some_iff)
  show ?thesis
    using assms cid
    by (simp add: complete_def io_defs storage_ok find_put validGameSession_def
     addPoints_def addAchievement_def recordPlay_def validChildProfile_def
     validSeriousGame_def findOneChildProfile_def findSeriousGameById_def
     completedSession_def awarded_def played_def awardTransaction_def Let_def
     split: option.splits)
qed

lemma completeHandler_ok:
  assumes session: "findGameSessionById sid s = Some x" "sessionChildId x = userId" "\<not> isCompleted x"
    and profile: "findOneChildProfile userId s = Some p" "validChildProfile p"
    and store: "writesLeft s = None"
    and score: "0 \<le> bodyScore b"
    and game: "\<forall>g. findSeriousGameById (gameId x) s = Some g \<longrightarrow> validSeriousGame g"
    and clock: "startTime x \<le> now" "now \<le> later"
  shows "completeHandler now later userId sid b s =
     (let x' = completedSession now b x;
          d = durationToLog later x';
          p' = debited d (awarded b p)
      in (Response 200
            (CompleteData x' d (knowledgePoints p') (achievements p') (timeUsedToday p')
               (max 0 (timeLimitMinutes p' - timeUsedToday p'))),
          s\<lparr>gameSessions := putGameSession x' (gameSessions s),
            childProfiles := putChildProfile p' (childProfiles s),
            transactions := transactions s @ [awardTransaction now userId b x],
            seriousGames :=
              (case findSeriousGameById (gameId x) s of
                 None \<Rightarrow> seriousGames s
               | Some g \<Rightarrow> putSeriousGame (played (bodyScore b) g) (seriousGames s)),
            timeUsageLogs := timeUsageLogs s @
              [\<lparr>logChildId = userId, durationMinutes = d, sessionType = GameSessionType,
                logGameId = Some (gameId x), logTimestamp = later\<rparr>]\<rparr>))"
proof -
  have cid: "childId p = userId"
    using profile(1) by (auto simp: findOneChildProfile_def find_Some_iff)
  have d: "0 \<le> durationToLog later (completedSession now b x)"
    using clock by (rule durationToLog_nonneg)
  have c: "complete now x (bodyScore b) (bodyCorrectAnswers b) (bodyQuestionsAnswered b)
             (case bodyHintsUsed b of None \<Rightarrow> 0 | Some h \<Rightarrow> h) (bodyBadgeEarned b) s =
     (Inr (completedSession now b x),
      s\<lparr>gameSessions := putGameSession (completedSession now b x) (gameSessions s),
        childProfiles := putChildProfile (awarded b p) (childProfiles s),
        transactions := transactions s @ [awardTransaction now userId b x],
        seriousGames :=
          (case findSeriousGameById (gameId x) s of
             None \<Rightarrow> seriousGames s
           | Some g \<Rightarrow> putSeriousGame (played (bodyScore b) g) (seriousGames s))\<rparr>)"
    using complete_ok [of x s p b now] assms by simp
  have v: "validChildProfile (debited (durationToLog later (completedSession now b x)) (awarded b p))"
    using profile(2) score d by (simp add: validChildProfile_def awarded_fields debited_fields)
  show ?thesis
    using session profile(1) store cid d v
    by (simp add: completeHandler_def Let_def io_defs c addTimeUsed_def debited_def [symmetric]
        storage_ok find_put findOneChildProfile_def findGameSessionById_def
        validTimeUsageLog_def completedSession_fields awarded_fields debited_fields)
qed

lemma authenticateChild_ok:
  assumes "findOneChildProfile userId s = Some p" "validChildProfile p" "writesLeft s = None"
  obtains s0 where
    "\<And>next. authenticateChild pf now userId next s = next s0"
    "findOneChildProfile userId s0 = Some (afterReset pf now p)"
    "gameSessions s0 = gameSessions s" "seriousGames s0 = seriousGames s"
    "transactions s0 = transactions s" "timeUsageLogs s0 = timeUsageLogs s"
    "safetyAlerts s0 = safetyAlerts s" "notifications s0 = notifications s"
    "guardianProfiles s0 = guardianProfiles s"
    "writesLeft s0 = None"
    "toDateString pf now = toDateString pf (lastTimeReset p) \<Longrightarrow> s0 = s"
proof (cases "toDateString pf now = toDateString pf (lastTimeReset p)")
  case True
  show ?thesis
  proof (rule that [of s])
    show "authenticateChild pf now userId next s = next s" for "next"
      using assms True
      by (simp add: authenticateChild_def io_defs resetDailyTime_same_day)
  qed (use assms True in \<open>simp_all add: afterReset_def\<close>)
next
  case False
  let ?p' = "p\<lparr>timeUsedToday := 0, lastTimeReset := now\<rparr>"
  let ?s' = "s\<lparr>childProfiles := putChildProfile ?p' (childProfiles s)\<rparr>"
  show ?thesis
  proof (rule that [of ?s'])
    show "authenticateChild pf now userId next s = next ?s'" for "next"
      using assms False
      by (simp add: authenticateChild_def io_defs resetDailyTime_new_day)
    show "findOneChildProfile userId ?s' = Some (afterReset pf now p)"
      using find_childId_put [of userId "childProfiles s" p ?p'] assms(1) False
      by (simp add: findOneChildProfile_def afterReset_def)
  qed (use assms False in simp_all)
qed

lemma completeHandler_already:
  assumes "findGameSessionById sid s = Some x" "sessionChildId x = userId" "isCompleted x"
  shows "completeHandler now later userId sid b s
           = (Response 400 (Message ''Session already completed''), s)"
  using assms by (simp add: completeHandler_def io_defs)

text \<open>
  C1.  Take an open session of the calling child, whose stored profile (and the game
  of the session, if it is stored) satisfies the schema, a score that is not
  negative, a clock that does not run backwards and a store that does not fail.
  Completing the session answers 200; completing it again, with whatever body and at
  whatever time, answers 400 \<open>Session already completed\<close>.  After both calls the
  child's point balance is the old balance plus the score, once, and the transaction
  log has grown by exactly the one award; the second call changes neither the stored
  sessions nor the child's progress.
\<close>

theorem session_completion_exactly_once:
  assumes session: "findGameSessionById sid s = Some x" "sessionChildId x = userId"
      "\<not> isCompleted x"
    and profile: "findOneChildProfile userId s = Some p" "validChildProfile p"
    and store: "writesLeft s = None"
    and score: "0 \<le> bodyScore b"
    and game: "\<forall>g. findSeriousGameById (gameId x) s = Some g \<longrightarrow> validSeriousGame g"
    and clock: "startTime x \<le> now" "now \<le> later"
  shows "status (fst (completeSession pf now later userId sid b s)) = 200
     \<and> fst (completeSession pf now2 later2 userId sid b2
               (snd (completeSession pf now later userId sid b s)))
         = Response 400 (Message ''Session already completed'')
     \<and> map_option knowledgePoints
           (findOneChildProfile userId
              (snd (completeSession pf now2 later2 userId sid b2
                      (snd (completeSession pf now later userId sid b s)))))
         = Some (knowledgePoints p + bodyScore b)
     \<and> transactions (snd (completeSession pf now2 later2 userId sid b2
                             (snd (completeSession pf now later userId sid b s))))
         = transactions s @ [awardTransaction now userId b x]
     \<and> gameSessions (snd (completeSession pf now2 later2 userId sid b2
                             (snd (completeSession pf now later userId sid b s))))
         = gameSessions (snd (completeSession pf now later userId sid b s))
     \<and> map_option progress
           (findOneChildProfile userId
              (snd (completeSession pf now2 later2 userId sid b2
                      (snd (completeSession pf now later userId sid b s)))))
         = map_option progress
             (findOneChildProfile userId (snd (completeSession pf now later userId sid b s)))"
proof -
  obtain s0 where s0:
    "\<And>next. authenticateChild pf now userId next s = next s0"
    "findOneChildProfile userId s0 = Some (afterReset pf now p)"
    "gameSessions s0 = gameSessions s" "seriousGames s0 = seriousGames s"
    "transactions s0 = transactions s" "writesLeft s0 = None"
    using authenticateChild_ok [OF profile store] by metis
  let ?p0 = "afterReset pf now p"
  let ?x' = "completedSession now b x"
  let ?d = "durationToLog later ?x'"
  let ?p1 = "debited ?d (awarded b ?p0)"
  define s1 where "s1 = snd (completeHandler now later userId sid b s0)"
  have first: "completeSession pf now later userId sid b s = completeHandler now later userId sid b s0"
    by (simp add: completeSession_def s0(1))
  have handler: "completeHandler now later userId sid b s0 =
     (Response 200
        (CompleteData ?x' ?d (knowledgePoints ?p1) (achievements ?p1) (timeUsedToday ?p1)
           (max 0 (timeLimitMinutes ?p1 - timeUsedToday ?p1))),
      s0\<lparr>gameSessions := putGameSession ?x' (gameSessions s0),
         childProfiles := putChildProfile ?p1 (childProfiles s0),
         transactions := transactions s0 @ [awardTransaction now userId b x],
         seriousGames :=
           (case findSeriousGameById (gameId x) s0 of
              None \<Rightarrow> seriousGames s0
            | Some g \<Rightarrow> putSeriousGame (played (bodyScore b) g) (seriousGames s0)),
         timeUsageLogs := timeUsageLogs s0 @
           [\<lparr>logChildId = userId, durationMinutes = ?d, sessionType = GameSessionType,
             logGameId = Some (gameId x), logTimestamp = later\<rparr>]\<rparr>)"
    using completeHandler_ok [of sid s0 x userId ?p0 b now later]
      session s0 score game clock afterReset_valid [OF profile(2)]
    by (simp add: findGameSessionById_def findSeriousGameById_def Let_def)
  have d: "0 \<le> ?d" using clock by (rule durationToLog_nonneg)
  have p1_valid: "validChildProfile ?p1"
    using profile(2) score d
    by (simp add: validChildProfile_def awarded_fields debited_fields afterReset_fields
        afterReset_def)
  have cid: "childId p = userId"
    using profile(1) by (auto simp: findOneChildProfile_def find_Some_iff)
  have s1_session: "findGameSessionById sid s1 = Some ?x'"
    using session(1) s0(3)
    by (simp add: s1_def handler findGameSessionById_def find_gs_id_put_simp
        completedSession_fields)
  have s1_profile: "findOneChildProfile userId s1 = Some ?p1"
    using s0(2) cid
    by (simp add: s1_def handler findOneChildProfile_def find_childId_put_simp
        awarded_fields debited_fields afterReset_fields)
  have s1_store: "writesLeft s1 = None" using s0(6) by (simp add: s1_def handler)
  have s1_tx: "transactions s1 = transactions s @ [awardTransaction now userId b x]"
    using s0(5) by (simp add: s1_def handler)
  obtain s2 where s2:
    "\<And>next. authenticateChild pf now2 userId next s1 = next s2"
    "findOneChildProfile userId s2 = Some (afterReset pf now2 ?p1)"
    "gameSessions s2 = gameSessions s1" "transactions s2 = transactions s1"
    using authenticateChild_ok [OF s1_profile p1_valid s1_store] by metis
  have s2_session: "findGameSessionById sid s2 = Some ?x'"
    using s1_session s2(3) by (simp add: findGameSessionById_def)
  have second: "completeSession pf now2 later2 userId sid b2 s1
                  = (Response 400 (Message ''Session already completed''), s2)"
    using completeHandler_already [OF s2_session, of userId now2 later2 b2] session(2)
    by (simp add: completeSession_def s2(1) completedSession_fields)
  have s1_eq: "snd (completeSession pf now later userId sid b s) = s1"
    by (simp add: first s1_def)
  show ?thesis
    unfolding s1_eq second
    using s2(2,3,4) s1_tx s1_profile
    by (simp add: first handler progress_def awarded_fields debited_fields afterReset_fields)
qed

theorem session_completion_exactly_once_witness:
  "findGameSessionById 40 playDb = Some sampleSession
   \<and> \<not> isCompleted sampleSession
   \<and> findOneChildProfile 1 playDb = Some sampleChild
   \<and> knowledgePoints sampleChild = 0 \<and> bodyScore sampleBody = 80
   \<and> status (fst (completeSession samplePlatform 720000 720500 1 40 sampleBody playDb)) = 200
   \<and> fst (completeSession samplePlatform 900000 900500 1 40 (sampleBody\<lparr>bodyScore := 95\<rparr>)
              (snd (completeSession samplePlatform 720000 720500 1 40 sampleBody playDb)))
         = Response 400 (Message ''Session already completed'')
   \<and> map_option knowledgePoints
         (findOneChildProfile 1
            (snd (completeSession samplePlatform 900000 900500 1 40 (sampleBody\<lparr>bodyScore := 95\<rparr>)
                    (snd (completeSession samplePlatform 720000 720500 1 40 sampleBody playDb)))))
         = Some 80"
proof -
  have h1: "findGameSessionById 40 playDb = Some sampleSession"
    by (simp add: findGameSessionById_def playDb_def sampleDb_def sampleSession_def)
  have h2: "sessionChildId sampleSession = 1" "\<not> isCompleted sampleSession"
    "startTime sampleSession \<le> 720000"
    by (simp_all add: sampleSession_def)
  have h3: "findOneChildProfile 1 playDb = Some sampleChild"
    by (simp add: findOneChildProfile_def playDb_def sampleDb_def sampleChild_def)
  have h4: "validChildProfile sampleChild"
    by (simp add: validChildProfile_def sampleChild_def)
  have h5: "writesLeft playDb = None"
    by (simp add: playDb_def sampleDb_def)
  have h6: "0 \<le> bodyScore sampleBody"
    by (simp add: sampleBody_def)
  have h7: "\<forall>g. findSeriousGameById (gameId sampleSession) playDb = Some g
              \<longrightarrow> validSeriousGame g"
    by (simp add: findSeriousGameById_def playDb_def sampleDb_def sampleSession_def
        sampleGame_def validSeriousGame_def)
  have h8: "(720000::int) \<le> 720500" by simp
  from session_completion_exactly_once
         [OF h1 h2(1) h2(2) h3 h4 h5 h6 h7 h2(3) h8,
          where pf = samplePlatform and ?now2.0 = 900000 and ?later2.0 = 900500
            and ?b2.0 = "sampleBody\<lparr>bodyScore := 95\<rparr>"]
    h1 h2 h3
  show ?thesis by (simp add: sampleChild_def sampleBody_def)
qed

section \<open>A store that fails during a completion\<close>

lemmas pipeline_defs =
  completeHandler_def complete_def addPoints_def addAchievement_def addTimeUsed_def
  recordPlay_def saveGameSession_def saveChildProfile_def saveSeriousGame_def
  createTransaction_def createTimeUsageLog_def

lemma completeHandler_fault_3:
  assumes session: "findGameSessionById sid s = Some x" "sessionChildId x = userId" "\<not> isCompleted x"
    and profile: "findOneChildProfile userId s = Some p" "validChildProfile p"
    and store: "writesLeft s = Some (Suc (Suc (Suc 0)))"
    and score: "0 \<le> bodyScore b"
    and game: "\<forall>g. findSeriousGameById (gameId x) s = Some g \<longrightarrow> validSeriousGame g"
    and clock: "startTime x \<le> now" "now \<le> later"
  shows "completeHandler now later userId sid b s =
     (Response 500 (Message ''Error completing game''),
      s\<lparr>gameSessions := putGameSession (completedSession now b x) (gameSessions s),
        childProfiles :=
          putChildProfile (p\<lparr>knowledgePoints := knowledgePoints p + bodyScore b\<rparr>) (childProfiles s),
        transactions := transactions s @ [awardTransaction now userId b x],
        writesLeft := Some 0\<rparr>)"
proof -
  have cid: "childId p = userId"
    using profile(1) by (auto simp: findOneChildProfile_def find_Some_iff)
  show ?thesis
    using assms cid
    by (simp add: pipeline_defs io_defs storageWrite_Suc storageWrite_0 find_put
        validGameSession_def validChildProfile_def validSeriousGame_def
        findOneChildProfile_def findSeriousGameById_def findGameSessionById_def
        completedSession_def awardTransaction_def Let_def
        split: option.splits)
qed

lemma completeSession_same_day:
  assumes "findOneChildProfile userId s = Some p"
    and "toDateString pf now = toDateString pf (lastTimeReset p)"
  shows "completeSession pf now later userId sid b s = completeHandler now later userId sid b s"
  using assms
  by (simp add: completeSession_def authenticateChild_def io_defs resetDailyTime_same_day)

lemma completeHandler_faults:
  assumes session: "findGameSessionById sid s = Some x" "sessionChildId x = userId" "\<not> isCompleted x"
    and profile: "findOneChildProfile userId s = Some p" "validChildProfile p"
    and store: "writesLeft s = Some k" "k < 6"
    and score: "0 \<le> bodyScore b"
    and game: "\<forall>g. findSeriousGameById (gameId x) s = Some g \<longrightarrow> validSeriousGame g"
    and clock: "startTime x \<le> now" "now \<le> later"
  shows "status (fst (completeHandler now later userId sid b s)) = 500"
    and "k = 0 \<Longrightarrow> snd (completeHandler now later userId sid b s) = s"
    and "1 \<le> k \<Longrightarrow> findGameSessionById sid (snd (completeHandler now later userId sid b s))
                      = Some (completedSession now b x)"
    and "k = 2 \<Longrightarrow>
           map_option knowledgePoints
             (findOneChildProfile userId (snd (completeHandler now later userId sid b s)))
             = Some (knowledgePoints p + bodyScore b)
           \<and> transactions (snd (completeHandler now later userId sid b s)) = transactions s"
    and "3 \<le> k \<Longrightarrow>
           map_option knowledgePoints
             (findOneChildProfile userId (snd (completeHandler now later userId sid b s)))
             = Some (knowledgePoints p + bodyScore b)
           \<and> transactions (snd (completeHandler now later userId sid b s))
             = transactions s @ [awardTransaction now userId b x]"
    and "3 \<le> k \<Longrightarrow> k \<le> 4 \<Longrightarrow>
           map_option timeUsedToday
             (findOneChildProfile userId (snd (completeHandler now later userId sid b s)))
             = Some (timeUsedToday p)
           \<and> timeUsageLogs (snd (completeHandler now later userId sid b s)) = timeUsageLogs s"
proof -
  have cid: "childId p = userId"
    using profile(1) by (auto simp: findOneChildProfile_def find_Some_iff)
  have d: "0 \<le> durationToLog later (completedSession now b x)"
    using clock by (rule durationToLog_nonneg)
  note evaluate = pipeline_defs io_defs storageWrite_Suc storageWrite_0 find_put
        validGameSession_def validChildProfile_def validSeriousGame_def validTimeUsageLog_def
        findOneChildProfile_def findSeriousGameById_def findGameSessionById_def
        completedSession_def [symmetric] completedSession_fields awardTransaction_def Let_def
  consider "k = 0" | "k = Suc 0" | "k = Suc (Suc 0)" | "k = Suc (Suc (Suc 0))"
    | "k = Suc (Suc (Suc (Suc 0)))" | "k = Suc (Suc (Suc (Suc (Suc 0))))"
    using store(2) by (auto simp: numeral_eq_Suc less_Suc_eq)
  note k = this
  have x': "validGameSession (completedSession now b x)"
    using score by (simp add: validGameSession_def completedSession_fields)
  from k show "status (fst (completeHandler now later userId sid b s)) = 500"
    using assms cid d x'
    by cases (simp_all add: evaluate find_gs_id_put_simp split: option.splits)
  from k show "snd (completeHandler now later userId sid b s) = s" if "k = 0"
    using assms cid d x' that
    by cases (simp_all add: evaluate find_gs_id_put_simp split: option.splits)
  from k show "findGameSessionById sid (snd (completeHandler now later userId sid b s))
                      = Some (completedSession now b x)" if "1 \<le> k"
    using assms cid d x' that
    by cases (simp_all add: evaluate find_gs_id_put_simp split: option.splits)
  from k show "map_option knowledgePoints
             (findOneChildProfile userId (snd (completeHandler now later userId sid b s)))
             = Some (knowledgePoints p + bodyScore b)
           \<and> transactions (snd (completeHandler now later userId sid b s)) = transactions s"
    if "k = 2"
    using assms cid d x' that
    by cases (simp_all add: evaluate find_gs_id_put_simp split: option.splits)
  from k show "map_option knowledgePoints
             (findOneChildProfile userId (snd (completeHandler now later userId sid b s)))
             = Some (knowledgePoints p + bodyScore b)
           \<and> transactions (snd (completeHandler now later userId sid b s))
             = transactions s @ [awardTransaction now userId b x]" if "3 \<le> k"
    using assms cid d x' that
    by cases (simp_all add: evaluate find_gs_id_put_simp split: option.splits)
  from k show "map_option timeUsedToday
             (findOneChildProfile userId (snd (completeHandler now later userId sid b s)))
             = Some (timeUsedToday p)
           \<and> timeUsageLogs (snd (completeHandler now later userId sid b s)) = timeUsageLogs s"
    if "3 \<le> k" "k \<le> 4"
    using assms cid d x' that
    by cases (simp_all add: evaluate find_gs_id_put_simp split: option.splits)
qed


text \<open>
  C6 as amended.  Completion is a sequence of separate writes, with no transaction and
  no compensation: when the store fails at one of them the request is answered with
  status 500 and every write before the failure stays.  For an open session of the
  calling child, on the day of the profile's last reset, and a store that performs
  \<open>k < 6\<close> more writes: no write at all leaves the database as it was; after one
  write the session is stored as completed; after exactly two the point balance is
  raised and no transaction is logged; after three or more the points are awarded and
  logged; and after three or four the time is not debited and no usage is logged.
\<close>

theorem completion_steps_not_atomic:
  assumes session: "findGameSessionById sid s = Some x" "sessionChildId x = userId"
      "\<not> isCompleted x"
    and profile: "findOneChildProfile userId s = Some p" "validChildProfile p"
    and day: "toDateString pf now = toDateString pf (lastTimeReset p)"
    and store: "writesLeft s = Some k" "k < 6"
    and score: "0 \<le> bodyScore b"
    and game: "\<forall>g. findSeriousGameById (gameId x) s = Some g \<longrightarrow> validSeriousGame g"
    and clock: "startTime x \<le> now" "now \<le> later"
  shows "status (fst (completeSession pf now later userId sid b s)) = 500
     \<and> (k = 0 \<longrightarrow> snd (completeSession pf now later userId sid b s) = s)
     \<and> (1 \<le> k \<longrightarrow>
          findGameSessionById sid (snd (completeSession pf now later userId sid b s))
            = Some (completedSession now b x))
     \<and> (k = 2 \<longrightarrow>
          map_option knowledgePoints
            (findOneChildProfile userId (snd (completeSession pf now later userId sid b s)))
            = Some (knowledgePoints p + bodyScore b)
          \<and> transactions (snd (completeSession pf now later userId sid b s)) = transactions s)
     \<and> (3 \<le> k \<longrightarrow>
          map_option knowledgePoints
            (findOneChildProfile userId (snd (completeSession pf now later userId sid b s)))
            = Some (knowledgePoints p + bodyScore b)
          \<and> transactions (snd (completeSession pf now later userId sid b s))
            = transactions s @ [awardTransaction now userId b x])
     \<and> (3 \<le> k \<and> k \<le> 4 \<longrightarrow>
          map_option timeUsedToday
            (findOneChildProfile userId (snd (completeSession pf now later userId sid b s)))
            = Some (timeUsedToday p)
          \<and> timeUsageLogs (snd (completeSession pf now later userId sid b s))
            = timeUsageLogs s)"
  unfolding completeSession_same_day [OF profile(1) day]
  using completeHandler_faults [OF session profile store score game clock]
  by (intro conjI impI) blast+

text \<open>
  The claim as stated fails: on a store that fails at the fourth write, the completion
  of the sample session is answered with status 500, and yet the session is stored as
  completed and the 80 points are awarded and logged, while the time used today is
  still 55 and no usage is logged.
\<close>

theorem completion_interrupted_keeps_points_without_time:
  "status (fst (completeSession samplePlatform 720000 720500 1 40 sampleBody (faultyDb 3))) = 500
   \<and> map_option knowledgePoints (findOneChildProfile 1 (faultyDb 3)) = Some 0
   \<and> map_option knowledgePoints
         (findOneChildProfile 1
            (snd (completeSession samplePlatform 720000 720500 1 40 sampleBody (faultyDb 3))))
       = Some 80
   \<and> map points
         (transactions
            (snd (completeSession samplePlatform 720000 720500 1 40 sampleBody (faultyDb 3))))
       = [80]
   \<and> map_option isCompleted
         (findGameSessionById 40
            (snd (completeSession samplePlatform 720000 720500 1 40 sampleBody (faultyDb 3))))
       = Some True
   \<and> map_option timeUsedToday
         (findOneChildProfile 1
            (snd (completeSession samplePlatform 720000 720500 1 40 sampleBody (faultyDb 3))))
       = Some 55
   \<and> timeUsageLogs
         (snd (completeSession samplePlatform 720000 720500 1 40 sampleBody (faultyDb 3)))
       = []"
proof -
  have h1: "findGameSessionById 40 (faultyDb 3) = Some sampleSession"
    by (simp add: findGameSessionById_def faultyDb_def playDb_def sampleDb_def sampleSession_def)
  have h2: "sessionChildId sampleSession = 1" "\<not> isCompleted sampleSession"
    "startTime sampleSession \<le> 720000"
    by (simp_all add: sampleSession_def)
  have h3: "findOneChildProfile 1 (faultyDb 3) = Some sampleChild"
    by (simp add: findOneChildProfile_def faultyDb_def playDb_def sampleDb_def sampleChild_def)
  have h4: "validChildProfile sampleChild"
    by (simp add: validChildProfile_def sampleChild_def)
  have h5: "writesLeft (faultyDb 3) = Some (Suc (Suc (Suc 0)))"
    by (simp add: faultyDb_def numeral_3_eq_3)
  have h6: "0 \<le> bodyScore sampleBody"
    by (simp add: sampleBody_def)
  have h7: "\<forall>g. findSeriousGameById (gameId sampleSession) (faultyDb 3) = Some g
              \<longrightarrow> validSeriousGame g"
    by (simp add: findSeriousGameById_def faultyDb_def playDb_def sampleDb_def sampleSession_def
        sampleGame_def validSeriousGame_def)
  have h8: "(720000::int) \<le> 720500" by simp
  have day: "toDateString samplePlatform 720000
               = toDateString samplePlatform (lastTimeReset sampleChild)"
    by (simp add: toDateString_def samplePlatform_def sampleChild_def)
  have cid: "childId sampleChild = 1" "cp_id sampleChild = 10" "knowledgePoints sampleChild = 0"
    "timeUsedToday sampleChild = 55"
    by (simp_all add: sampleChild_def)
  have empty: "transactions (faultyDb 3) = []" "timeUsageLogs (faultyDb 3) = []"
    by (simp_all add: faultyDb_def playDb_def sampleDb_def)
  have run: "completeSession samplePlatform 720000 720500 1 40 sampleBody (faultyDb 3) =
     (Response 500 (Message ''Error completing game''),
      (faultyDb 3)\<lparr>gameSessions :=
          putGameSession (completedSession 720000 sampleBody sampleSession)
            (gameSessions (faultyDb 3)),
        childProfiles :=
          putChildProfile
            (sampleChild\<lparr>knowledgePoints := knowledgePoints sampleChild + bodyScore sampleBody\<rparr>)
            (childProfiles (faultyDb 3)),
        transactions := transactions (faultyDb 3)
          @ [awardTransaction 720000 1 sampleBody sampleSession],
        writesLeft := Some 0\<rparr>)"
    unfolding completeSession_same_day [OF h3 day]
    by (rule completeHandler_fault_3 [OF h1 h2(1) h2(2) h3 h4 h5 h6 h7 h2(3) h8])
  have found: "map_option cp_id (find (\<lambda>q. childId q = 1) (childProfiles (faultyDb 3))) = Some 10"
    using h3 by (simp add: findOneChildProfile_def cid)
  have found_session:
    "map_option gs_id (find (\<lambda>y. gs_id y = 40) (gameSessions (faultyDb 3))) = Some 40"
    using h1 by (simp add: findGameSessionById_def sampleSession_def)
  show ?thesis
    unfolding run
    using h3 found found_session
    by (simp add: findOneChildProfile_def findGameSessionById_def find_childId_put_simp
        find_gs_id_put_simp completedSession_fields cid empty awardTransaction_def
        sampleBody_def sampleSession_def)
qed

theorem completion_steps_not_atomic_witness:
  "findGameSessionById 40 (faultyDb 2) = Some sampleSession
   \<and> findOneChildProfile 1 (faultyDb 2) = Some sampleChild
   \<and> writesLeft (faultyDb 2) = Some 2
   \<and> status (fst (completeSession samplePlatform 720000 720500 1 40 sampleBody (faultyDb 2))) = 500
   \<and> map_option knowledgePoints
         (findOneChildProfile 1
            (snd (completeSession samplePlatform 720000 720500 1 40 sampleBody (faultyDb 2))))
       = Some 80
   \<and> transactions
         (snd (completeSession samplePlatform 720000 720500 1 40 sampleBody (faultyDb 2)))
       = []"
proof -
  have h1: "findGameSessionById 40 (faultyDb 2) = Some sampleSession"
    by (simp add: findGameSessionById_def faultyDb_def playDb_def sampleDb_def sampleSession_def)
  have h2: "sessionChildId sampleSession = 1" "\<not> isCompleted sampleSession"
    "startTime sampleSession \<le> 720000"
    by (simp_all add: sampleSession_def)
  have h3: "findOneChildProfile 1 (faultyDb 2) = Some sampleChild"
    by (simp add: findOneChildProfile_def faultyDb_def playDb_def sampleDb_def sampleChild_def)
  have h4: "validChildProfile sampleChild"
    by (simp add: validChildProfile_def sampleChild_def)
  have h5: "writesLeft (faultyDb 2) = Some 2" "(2::nat) < 6"
    by (simp_all add: faultyDb_def)
  have h6: "0 \<le> bodyScore sampleBody"
    by (simp add: sampleBody_def)
  have h7: "\<forall>g. findSeriousGameById (gameId sampleSession) (faultyDb 2) = Some g
              \<longrightarrow> validSeriousGame g"
    by (simp add: findSeriousGameById_def faultyDb_def playDb_def sampleDb_def sampleSession_def
        sampleGame_def validSeriousGame_def)
  have h8: "(720000::int) \<le> 720500" by simp
  have day: "toDateString samplePlatform 720000
               = toDateString samplePlatform (lastTimeReset sampleChild)"
    by (simp add: toDateString_def samplePlatform_def sampleChild_def)
  have empty: "transactions (faultyDb 2) = []"
    by (simp add: faultyDb_def playDb_def sampleDb_def)
  from completion_steps_not_atomic
         [OF h1 h2(1) h2(2) h3 h4 day h5 h6 h7 h2(3) h8] h1 h3 h5(1) empty
  show ?thesis by (simp add: sampleChild_def sampleBody_def)
qed

end
